theory Spec2Isabelle
  imports Main "HOL-Library.Word"
begin

section \<open>Time, errors and identifiers\<close>

text \<open>
  A \<open>time.Time\<close> is an instant on an integer time line and a \<open>time.Duration\<close> a
  signed distance on it, both in the unit of the clock (nanoseconds in Go).
  \<open>t.Add(d)\<close> is \<open>t + d\<close>, \<open>t.After(u)\<close> is \<open>u < t\<close>, \<open>t.Before(u)\<close> is \<open>t < u\<close>.
  Every \<open>time.Now()\<close> of the source is an explicit argument of the model: the caller
  supplies the reading the call would have taken.
\<close>

type_synonym Time = int
type_synonym Duration = int

definition zeroTime :: Time where
  "zeroTime = 0"

text \<open>
  Errors are values. The sentinels of the repository keep their names; the
  sentinels of the MongoDB driver and of the JWT library are the ones the source
  tests for or can receive. \<open>ErrorString\<close> is \<open>errors.New\<close> / \<open>fmt.Errorf\<close>;
  \<open>StatusError c e\<close> is \<open>status.Error(c, e.Error())\<close>: it carries the error whose
  text becomes the message.
\<close>

datatype code = Unauthenticated

datatype claim_error =
    ErrTokenRequiredClaimMissing
  | ErrTokenExpired_jwt
  | ErrTokenNotValidYet
  | ErrTokenInvalidAudience
  | ErrTokenInvalidIssuer

datatype error =
    ErrNoDocuments
  | DuplicateKeyError
  | ErrInvalidHex
  | ErrTokenNotFound
  | ErrTokenAlreadyUsed
  | ErrTokenExpired
  | ErrInvalidToken
  | ErrUserAlreadyExists
  | ErrInvalidCredentials
  | ErrTokenMalformed
  | ErrTokenSignatureInvalid
  | ErrTokenUnverifiable
  | ErrInvalidKeyType
  | ErrTokenInvalidClaims "claim_error list"
  | ErrorString string
  | StatusError code error

subsection \<open>bson.ObjectID\<close>

text \<open>
  An ObjectID is twelve bytes, here a 96-bit word. \<open>Hex\<close> writes it as 24 lower-case
  hexadecimal digits, most significant first; \<open>ObjectIDFromHex\<close> reads 24 digits of
  either case and fails on anything else.
\<close>

type_synonym ObjectID = "96 word"

definition NilObjectID :: ObjectID where
  "NilObjectID = 0"

definition hexdigit :: "nat \<Rightarrow> char" where
  "hexdigit d = ''0123456789abcdef'' ! (d mod 16)"

definition hexval :: "char \<Rightarrow> nat option" where
  "hexval c = (let n = (of_char c :: nat) in
     if 48 \<le> n \<and> n \<le> 57 then Some (n - 48)
     else if 97 \<le> n \<and> n \<le> 102 then Some (n - 87)
     else if 65 \<le> n \<and> n \<le> 70 then Some (n - 55)
     else None)"

definition hexdigits :: "nat \<Rightarrow> nat \<Rightarrow> string" where
  "hexdigits k n = map (\<lambda>i. hexdigit ((n div 16 ^ i) mod 16)) (rev [0..<k])"

definition Hex :: "ObjectID \<Rightarrow> string" where
  "Hex oid = hexdigits 24 (unat oid)"

definition ObjectIDFromHex :: "string \<Rightarrow> error + ObjectID" where
  "ObjectIDFromHex s =
     (if length s \<noteq> 24 then Inl ErrInvalidHex
      else case those (map hexval s) of
             None \<Rightarrow> Inl ErrInvalidHex
           | Some ds \<Rightarrow> Inr (of_nat (foldl (\<lambda>a d. 16 * a + d) 0 ds)))"

text \<open>\<open>hex.EncodeToString\<close>: two lower-case digits per byte.\<close>

definition EncodeToString :: "8 word list \<Rightarrow> string" where
  "EncodeToString bs = concat (map (\<lambda>b. hexdigits 2 (unat b)) bs)"

section \<open>The document store\<close>

text \<open>
  A collection is the list of its documents in insertion order. The operations
  are those of the driver that the repositories call: \<open>FindOne\<close> returns the first
  document matching the filter or \<open>ErrNoDocuments\<close>; \<open>UpdateOne\<close> changes the first
  match and \<open>UpdateMany\<close> every match, and neither reports an error when nothing
  matches; \<open>InsertOne\<close> refuses a document that collides with a stored one on a
  unique index (\<open>_id\<close> always, and the indexes the repository declares).
  The background expiry of the TTL index on \<open>expires_at\<close> is not part of a call and
  is not modelled; instants are stored as written. An operation fails only for
  the reasons given here: a failure of the connection is outside the model, and
  the branches of the repositories and use cases that hand such an error on are
  kept as they are.
\<close>

definition FindOne :: "('a \<Rightarrow> bool) \<Rightarrow> 'a list \<Rightarrow> error + 'a" where
  "FindOne flt coll =
     (case List.find flt coll of None \<Rightarrow> Inl ErrNoDocuments | Some d \<Rightarrow> Inr d)"

fun UpdateOne :: "('a \<Rightarrow> bool) \<Rightarrow> ('a \<Rightarrow> 'a) \<Rightarrow> 'a list \<Rightarrow> 'a list" where
  "UpdateOne flt upd [] = []"
| "UpdateOne flt upd (d # coll) =
     (if flt d then upd d # coll else d # UpdateOne flt upd coll)"

definition UpdateMany :: "('a \<Rightarrow> bool) \<Rightarrow> ('a \<Rightarrow> 'a) \<Rightarrow> 'a list \<Rightarrow> 'a list" where
  "UpdateMany flt upd coll = map (\<lambda>d. if flt d then upd d else d) coll"

definition InsertOne :: "('a \<Rightarrow> 'a \<Rightarrow> bool) \<Rightarrow> 'a \<Rightarrow> 'a list \<Rightarrow> error + 'a list" where
  "InsertOne collides d coll =
     (if list_ex (\<lambda>e. collides e d) coll then Inl DuplicateKeyError
      else Inr (coll @ [d]))"

definition FindOneAndUpdate ::
  "('a \<Rightarrow> bool) \<Rightarrow> ('a \<Rightarrow> 'a) \<Rightarrow> 'a list \<Rightarrow> (error + 'a \<times> 'a) \<times> 'a list" where
  "FindOneAndUpdate flt upd coll =
     (case List.find flt coll of
        None \<Rightarrow> (Inl ErrNoDocuments, coll)
      | Some d \<Rightarrow> (Inr (d, upd d), UpdateOne flt upd coll))"

definition DeleteMany :: "('a \<Rightarrow> bool) \<Rightarrow> 'a list \<Rightarrow> nat \<times> 'a list" where
  "DeleteMany flt coll = (length (filter flt coll), filter (\<lambda>d. \<not> flt d) coll)"

section \<open>Models and repositories of the auth service\<close>

text \<open>
  The structs of \<open>internal/model\<close>. Field names carry the struct's name because
  several structs share them.
\<close>

record User =
  User_ID :: ObjectID
  User_Email :: string
  User_PasswordHash :: string
  User_Verified :: bool
  User_VerificationCode :: string
  User_VerificationCodeExpiresAt :: Time
  User_CreatedAt :: Time
  User_UpdatedAt :: Time

record Identity =
  Identity_ID :: ObjectID
  Identity_UserID :: string
  Identity_ProviderID :: string
  Identity_Provider :: string
  Identity_Email :: string
  Identity_LastLoginAt :: Time
  Identity_CreatedAt :: Time
  Identity_UpdatedAt :: Time

text \<open>
  A JWT in compact form is modelled symbolically: either a string that is not a
  well-formed token, or a header algorithm, a claim set and a signature; a
  signature is the MAC of a claim set under an algorithm and a key, or bytes that
  are no MAC of anything. The zero value of a token field, the empty string, is
  \<open>Malformed []\<close>. The claim types of \<open>pkg/types\<close> are not among the source
  files; they are taken from the literals the use cases build: both embed the
  registered claims, session claims add the user and session identifiers, reset
  claims the user identifier, the email and the JTI.
\<close>

datatype SigningMethod = HS256 | HS384 | HS512 | RS256 | ES256 | none_alg

record RegisteredClaims =
  Issuer :: string
  Subject :: string
  Audience :: "string list"
  ExpiresAt :: "Time option"
  NotBefore :: "Time option"
  IssuedAt :: "Time option"

datatype Claims =
    JWTClaims (UserID: string) (SessionID: string) (Registered: RegisteredClaims)
  | PasswordResetClaims (UserID: string) (Email: string) (JTI: string)
      (Registered: RegisteredClaims)

datatype signature = Sign SigningMethod string Claims | Forged string

datatype tokenString = Compact SigningMethod Claims signature | Malformed string

record Session =
  Session_ID :: ObjectID
  Session_UserID :: string
  Session_AccessToken :: tokenString
  Session_RefreshToken :: tokenString
  Session_AccessTokenExpiresAt :: Time
  Session_RefreshTokenExpiresAt :: Time
  Session_IPAddress :: "string option"
  Session_UserAgent :: "string option"
  Session_CreatedAt :: Time
  Session_UpdatedAt :: Time

record PasswordResetToken =
  Reset_ID :: ObjectID
  Reset_UserID :: ObjectID
  Reset_JTI :: string
  Reset_Email :: string
  Reset_Used :: bool
  Reset_ExpiresAt :: Time
  Reset_CreatedAt :: Time
  Reset_UpdatedAt :: Time

text \<open>
  \<open>_id\<close> is tagged \<open>omitempty\<close>: a zero ObjectID is left out of the inserted
  document and the driver generates one. The generated identifier is an argument.
\<close>

definition ensureID :: "ObjectID \<Rightarrow> ObjectID \<Rightarrow> ObjectID" where
  "ensureID gen oid = (if oid = NilObjectID then gen else oid)"

subsection \<open>repository/password\_reset\_token.go\<close>

text \<open>Unique indexes: \<open>_id\<close> and \<open>jti\<close>.\<close>

definition CreateToken ::
  "Time \<Rightarrow> ObjectID \<Rightarrow> PasswordResetToken \<Rightarrow> PasswordResetToken list
     \<Rightarrow> error + PasswordResetToken \<times> PasswordResetToken list" where
  "CreateToken now gen token coll =
     (let token1 = token\<lparr>Reset_CreatedAt := now, Reset_UpdatedAt := now, Reset_Used := False\<rparr>;
          doc = token1\<lparr>Reset_ID := ensureID gen (Reset_ID token1)\<rparr>
      in case InsertOne (\<lambda>e d. Reset_ID e = Reset_ID d \<or> Reset_JTI e = Reset_JTI d) doc coll of
           Inl err \<Rightarrow> Inl err
         | Inr coll' \<Rightarrow> Inr (doc, coll'))"

definition GetTokenByJTI :: "PasswordResetToken list \<Rightarrow> string \<Rightarrow> error + PasswordResetToken" where
  "GetTokenByJTI coll jti = FindOne (\<lambda>t. Reset_JTI t = jti) coll"

text \<open>
  The filter of \<open>MarkTokenAsUsed\<close> is \<open>{jti: jti}\<close> alone and the update result is
  dropped (\<open>_, err := ...UpdateOne\<close>): the only error is the driver's.
\<close>

definition MarkTokenAsUsed ::
  "Time \<Rightarrow> PasswordResetToken list \<Rightarrow> string \<Rightarrow> error option \<times> PasswordResetToken list" where
  "MarkTokenAsUsed now coll jti =
     (None, UpdateOne (\<lambda>t. Reset_JTI t = jti)
              (\<lambda>t. t\<lparr>Reset_Used := True, Reset_UpdatedAt := now\<rparr>) coll)"

definition DeleteExpiredTokens ::
  "Time \<Rightarrow> PasswordResetToken list \<Rightarrow> (error + nat) \<times> PasswordResetToken list" where
  "DeleteExpiredTokens now coll =
     (case DeleteMany (\<lambda>t. Reset_ExpiresAt t < now) coll of
        (deleted, coll') \<Rightarrow> (Inr deleted, coll'))"

definition InvalidateUserTokens ::
  "Time \<Rightarrow> PasswordResetToken list \<Rightarrow> string \<Rightarrow> error option \<times> PasswordResetToken list" where
  "InvalidateUserTokens now coll userID =
     (case ObjectIDFromHex userID of
        Inl err \<Rightarrow> (Some err, coll)
      | Inr objectID \<Rightarrow>
          (None, UpdateMany (\<lambda>t. Reset_UserID t = objectID \<and> Reset_Used t = False)
                   (\<lambda>t. t\<lparr>Reset_Used := True, Reset_UpdatedAt := now\<rparr>) coll))"

subsection \<open>The user repository\<close>

text \<open>
  Unique indexes: \<open>_id\<close> and \<open>email\<close>. \<open>UpdateUser\<close> asks for the document after the
  update; an update that would give a second user the same email violates the
  unique index.
\<close>

record UpdateUserParams =
  Params_Email :: "string option"
  Params_PasswordHash :: "string option"

definition CreateUser ::
  "Time \<Rightarrow> ObjectID \<Rightarrow> User \<Rightarrow> User list \<Rightarrow> error + User \<times> User list" where
  "CreateUser now gen user coll =
     (let user1 = user\<lparr>User_CreatedAt := now, User_UpdatedAt := now\<rparr>;
          doc = user1\<lparr>User_ID := ensureID gen (User_ID user1)\<rparr>
      in case InsertOne (\<lambda>e d. User_ID e = User_ID d \<or> User_Email e = User_Email d) doc coll of
           Inl err \<Rightarrow> Inl err
         | Inr coll' \<Rightarrow> Inr (doc, coll'))"

definition GetUserByEmail :: "User list \<Rightarrow> string \<Rightarrow> error + User" where
  "GetUserByEmail coll email = FindOne (\<lambda>u. User_Email u = email) coll"

definition UpdateUser ::
  "Time \<Rightarrow> User list \<Rightarrow> string \<Rightarrow> UpdateUserParams \<Rightarrow> (error + User) \<times> User list" where
  "UpdateUser now coll id' params =
     (case ObjectIDFromHex id' of
        Inl err \<Rightarrow> (Inl err, coll)
      | Inr objectID \<Rightarrow>
          if Params_Email params = None \<and> Params_PasswordHash params = None
          then (Inl (ErrorString ''no user fields to update''), coll)
          else
            let upd = (\<lambda>u. u\<lparr>User_Email := (case Params_Email params of
                                                None \<Rightarrow> User_Email u | Some e \<Rightarrow> e),
                             User_PasswordHash := (case Params_PasswordHash params of
                                                     None \<Rightarrow> User_PasswordHash u | Some h \<Rightarrow> h),
                             User_UpdatedAt := now\<rparr>);
                collision = (case Params_Email params of
                               None \<Rightarrow> False
                             | Some e \<Rightarrow> list_ex (\<lambda>u. User_ID u = objectID) coll \<and>
                                 list_ex (\<lambda>u. User_ID u \<noteq> objectID \<and> User_Email u = e) coll)
            in if collision then (Inl DuplicateKeyError, coll)
               else case FindOneAndUpdate (\<lambda>u. User_ID u = objectID) upd coll of
                      (Inl err, coll') \<Rightarrow> (Inl err, coll')
                    | (Inr (before, after), coll') \<Rightarrow> (Inr after, coll'))"

subsection \<open>repository/identity.go\<close>

definition CreateIdentity ::
  "Time \<Rightarrow> ObjectID \<Rightarrow> Identity \<Rightarrow> Identity list \<Rightarrow> error + Identity \<times> Identity list" where
  "CreateIdentity now gen identity coll =
     (let identity1 = identity\<lparr>Identity_CreatedAt := now, Identity_UpdatedAt := now\<rparr>;
          doc = identity1\<lparr>Identity_ID := ensureID gen (Identity_ID identity1)\<rparr>
      in case InsertOne (\<lambda>e d. Identity_ID e = Identity_ID d) doc coll of
           Inl err \<Rightarrow> Inl err
         | Inr coll' \<Rightarrow> Inr (doc, coll'))"

definition UpdateLastLogin ::
  "Time \<Rightarrow> Identity list \<Rightarrow> string \<Rightarrow> error option \<times> Identity list" where
  "UpdateLastLogin now coll userID =
     (None, UpdateOne (\<lambda>i. Identity_UserID i = userID)
              (\<lambda>i. i\<lparr>Identity_LastLoginAt := now\<rparr>) coll)"

subsection \<open>The session repository\<close>

record UpdateTokensParams =
  Params_AccessToken :: tokenString
  Params_RefreshToken :: tokenString
  Params_AccessTokenExpiresAt :: Time
  Params_RefreshTokenExpiresAt :: Time

definition CreateSession ::
  "Time \<Rightarrow> ObjectID \<Rightarrow> Session \<Rightarrow> Session list \<Rightarrow> error + Session \<times> Session list" where
  "CreateSession now gen session coll =
     (let session1 = session\<lparr>Session_CreatedAt := now, Session_UpdatedAt := now\<rparr>;
          doc = session1\<lparr>Session_ID := ensureID gen (Session_ID session1)\<rparr>
      in case InsertOne (\<lambda>e d. Session_ID e = Session_ID d) doc coll of
           Inl err \<Rightarrow> Inl err
         | Inr coll' \<Rightarrow> Inr (doc, coll'))"

text \<open>\<open>FindOneAndUpdate\<close> without options returns the document as it was before.\<close>

definition UpdateTokens ::
  "Session list \<Rightarrow> string \<Rightarrow> UpdateTokensParams \<Rightarrow> (error + Session) \<times> Session list" where
  "UpdateTokens coll id' params =
     (case ObjectIDFromHex id' of
        Inl err \<Rightarrow> (Inl err, coll)
      | Inr objectID \<Rightarrow>
          (case FindOneAndUpdate (\<lambda>s. Session_ID s = objectID)
                  (\<lambda>s. s\<lparr>Session_AccessToken := Params_AccessToken params,
                          Session_RefreshToken := Params_RefreshToken params,
                          Session_AccessTokenExpiresAt := Params_AccessTokenExpiresAt params,
                          Session_RefreshTokenExpiresAt := Params_RefreshTokenExpiresAt params\<rparr>) coll of
             (Inl err, coll') \<Rightarrow> (Inl err, coll')
           | (Inr (before, after), coll') \<Rightarrow> (Inr before, coll')))"

section \<open>shared/auth/jwt.go: the token authenticator\<close>

text \<open>
  The JWT library is not part of the repository. Its behaviour is written out as
  far as the options the source passes select it: \<open>NewNumericDate\<close> truncates an
  instant to \<open>TimePrecision\<close> (one second, in nanoseconds); signing with an HMAC
  method and a byte key cannot fail; parsing checks, in this order, that the
  string is a token, that the header's algorithm is one of the valid methods,
  that the key function accepts the method, that the signature is the MAC of the
  claims under the key, and that the registered claims are valid at the time of
  the call. The claim checks are those of \<open>WithExpirationRequired\<close>,
  \<open>WithAudience\<close> and \<open>WithIssuer\<close>; an empty expected audience or issuer switches
  the respective check off, and \<open>iat\<close> is not checked.
\<close>

definition TimePrecision :: Duration where
  "TimePrecision = 1000000000"

definition Truncate :: "Time \<Rightarrow> Duration \<Rightarrow> Time" where
  "Truncate t d = (if d \<le> 0 then t else t - t mod d)"

definition NewNumericDate :: "Time \<Rightarrow> Time option" where
  "NewNumericDate t = Some (Truncate t TimePrecision)"

definition isHMAC :: "SigningMethod \<Rightarrow> bool" where
  "isHMAC m = (m = HS256 \<or> m = HS384 \<or> m = HS512)"

definition SignedString :: "SigningMethod \<Rightarrow> Claims \<Rightarrow> string \<Rightarrow> error + tokenString" where
  "SignedString m claims key =
     (if isHMAC m then Inr (Compact m claims (Sign m key claims)) else Inl ErrInvalidKeyType)"

definition Verify :: "SigningMethod \<Rightarrow> Claims \<Rightarrow> signature \<Rightarrow> string \<Rightarrow> bool" where
  "Verify m claims sg key = (isHMAC m \<and> sg = Sign m key claims)"

definition verifyExpiresAt :: "Time \<Rightarrow> bool \<Rightarrow> RegisteredClaims \<Rightarrow> claim_error list" where
  "verifyExpiresAt now required c =
     (case ExpiresAt c of
        None \<Rightarrow> if required then [ErrTokenRequiredClaimMissing] else []
      | Some exp \<Rightarrow> if now < exp then [] else [ErrTokenExpired_jwt])"

definition verifyNotBefore :: "Time \<Rightarrow> RegisteredClaims \<Rightarrow> claim_error list" where
  "verifyNotBefore now c =
     (case NotBefore c of
        None \<Rightarrow> []
      | Some nbf \<Rightarrow> if \<not> now < nbf then [] else [ErrTokenNotValidYet])"

definition verifyAudience :: "string \<Rightarrow> RegisteredClaims \<Rightarrow> claim_error list" where
  "verifyAudience cmp c =
     (if Audience c = [] \<or> concat (Audience c) = [] then [ErrTokenRequiredClaimMissing]
      else if cmp \<in> set (Audience c) then [] else [ErrTokenInvalidAudience])"

definition verifyIssuer :: "string \<Rightarrow> RegisteredClaims \<Rightarrow> claim_error list" where
  "verifyIssuer cmp c =
     (if Issuer c = [] then [ErrTokenRequiredClaimMissing]
      else if Issuer c = cmp then [] else [ErrTokenInvalidIssuer])"

definition Validate ::
  "Time \<Rightarrow> bool \<Rightarrow> string \<Rightarrow> string \<Rightarrow> RegisteredClaims \<Rightarrow> claim_error list" where
  "Validate now requireExp expectedAud expectedIss c =
     verifyExpiresAt now requireExp c @ verifyNotBefore now c
       @ (if expectedAud \<noteq> [] then verifyAudience expectedAud c else [])
       @ (if expectedIss \<noteq> [] then verifyIssuer expectedIss c else [])"

record Token =
  Token_Method :: SigningMethod
  Token_Claims :: Claims
  Token_Valid :: bool

definition ParseWithClaims ::
  "Time \<Rightarrow> tokenString \<Rightarrow> (SigningMethod \<Rightarrow> error + string) \<Rightarrow> bool \<Rightarrow> string \<Rightarrow> string
     \<Rightarrow> SigningMethod list \<Rightarrow> error + Token" where
  "ParseWithClaims now tokenString keyFunc requireExp expectedAud expectedIss validMethods =
     (case tokenString of
        Malformed _ \<Rightarrow> Inl ErrTokenMalformed
      | Compact m claims sg \<Rightarrow>
          if m \<notin> set validMethods then Inl ErrTokenSignatureInvalid
          else case keyFunc m of
                 Inl err \<Rightarrow> Inl ErrTokenUnverifiable
               | Inr key \<Rightarrow>
                   if \<not> Verify m claims sg key then Inl ErrTokenSignatureInvalid
                   else case Validate now requireExp expectedAud expectedIss (Registered claims) of
                          [] \<Rightarrow> Inr \<lparr>Token_Method = m, Token_Claims = claims, Token_Valid = True\<rparr>
                        | e # es \<Rightarrow> Inl (ErrTokenInvalidClaims (e # es)))"

record JWTAuthenticator =
  audience :: string
  issuer :: string

definition NewJWTAuthenticator :: "string \<Rightarrow> string \<Rightarrow> JWTAuthenticator" where
  "NewJWTAuthenticator aud iss = \<lparr>audience = aud, issuer = iss\<rparr>"

definition GenerateToken :: "JWTAuthenticator \<Rightarrow> Claims \<Rightarrow> string \<Rightarrow> error + tokenString" where
  "GenerateToken a claims secret =
     (case SignedString HS256 claims secret of
        Inl err \<Rightarrow> Inl err
      | Inr tokenStr \<Rightarrow> Inr tokenStr)"

text \<open>The key function both validators pass to the parser.\<close>

definition keyFunc :: "string \<Rightarrow> SigningMethod \<Rightarrow> error + string" where
  "keyFunc secret m =
     (if \<not> isHMAC m then Inl (ErrorString ''unexpected signing method'') else Inr secret)"

definition ValidateTokenWithClaims ::
  "JWTAuthenticator \<Rightarrow> Time \<Rightarrow> tokenString \<Rightarrow> string \<Rightarrow> error + Token" where
  "ValidateTokenWithClaims a now tokenString secret =
     (case ParseWithClaims now tokenString (keyFunc secret) True (audience a) (issuer a) [HS256] of
        Inl err \<Rightarrow> Inl err
      | Inr token \<Rightarrow>
          if \<not> Token_Valid token then Inl (ErrorString ''invalid token'') else Inr token)"

section \<open>Configuration, collaborators and the state of the service\<close>

text \<open>
  \<open>internal/config\<close> and \<open>shared/security\<close> are not among the source files. The
  configuration is the record of the fields the use cases read; the two password
  functions are parameters of the use cases, with the result types of their call
  sites.
\<close>

record AuthServiceConfig =
  Token_Issuer :: string
  Token_AccessTokenSecret :: string
  Token_AccessTokenExpiresIn :: Duration
  Token_RefreshTokenSecret :: string
  Token_RefreshTokenExpiresIn :: Duration
  Token_PasswordResetTokenSecret :: string
  Token_PasswordResetTokenExpiresIn :: Duration
  AppPasswordResetURL :: string

record Security =
  HashPassword :: "string \<Rightarrow> error + string"
  VerifyPassword :: "string \<Rightarrow> string \<Rightarrow> error + bool"

text \<open>
  The mailer. The body of the reset mail is fixed prose around the arguments of
  its \<open>Sprintf\<close>: the reset link, which is the configured URL followed by
  \<open>?token=\<close> and the signed token, and the lifetime of the link.
\<close>

datatype html = ResetMail string tokenString Duration | NoHTML

record Email =
  Email_To :: "string list"
  Email_Cc :: "string list"
  Email_Bcc :: "string list"
  Email_Subject :: string
  Email_Body :: string
  Email_HTMLBody :: html
  Email_Attachments :: "string list"
  Email_Embeds :: "string list"

definition Send :: "error option \<Rightarrow> Email \<Rightarrow> Email list \<Rightarrow> error option \<times> Email list" where
  "Send dialAndSend email sent =
     (if length (Email_To email) = 0 then (Some (ErrorString ''no recipients specified''), sent)
      else case dialAndSend of
             Some err \<Rightarrow> (Some err, sent)
           | None \<Rightarrow> (None, sent @ [email]))"

definition SendHTML ::
  "error option \<Rightarrow> string list \<Rightarrow> string \<Rightarrow> html \<Rightarrow> Email list \<Rightarrow> error option \<times> Email list" where
  "SendHTML dialAndSend to subject htmlBody sent =
     Send dialAndSend
       \<lparr>Email_To = to, Email_Cc = [], Email_Bcc = [], Email_Subject = subject, Email_Body = [],
        Email_HTMLBody = htmlBody, Email_Attachments = [], Email_Embeds = []\<rparr> sent"

text \<open>
  The state is the four collections and the mail handed to the SMTP server.
  What a call takes from outside is its environment: \<open>now i\<close> is the reading of
  the \<open>i\<close>-th \<open>time.Now()\<close> of the call, \<open>newID j\<close> the \<open>j\<close>-th identifier the
  driver generates, \<open>randRead\<close> the outcome of \<open>rand.Read\<close> and \<open>dialAndSend\<close> that
  of the SMTP dialogue.
\<close>

record State =
  users :: "User list"
  identities :: "Identity list"
  sessions :: "Session list"
  password_reset_tokens :: "PasswordResetToken list"
  outbox :: "Email list"

record Env =
  now :: "nat \<Rightarrow> Time"
  newID :: "nat \<Rightarrow> ObjectID"
  randRead :: "error + 8 word list"
  dialAndSend :: "error option"

definition later :: "nat \<Rightarrow> nat \<Rightarrow> Env \<Rightarrow> Env" where
  "later i j env = env\<lparr>now := (\<lambda>k. now env (k + i)), newID := (\<lambda>k. newID env (k + j))\<rparr>"

section \<open>usecase/auth.go: login, registration and session issuance\<close>

record LoginParams =
  Login_Email :: string
  Login_Password :: string

record RegisterParams =
  Register_Email :: string
  Register_Password :: string

record Tokens =
  AccessToken :: tokenString
  RefreshToken :: tokenString

definition generateToken ::
  "AuthServiceConfig \<Rightarrow> JWTAuthenticator \<Rightarrow> Time \<Rightarrow> string \<Rightarrow> string \<Rightarrow> string \<Rightarrow> Duration
     \<Rightarrow> error + tokenString" where
  "generateToken cfg jwtAuth now0 userID sessionID secret expiresIn =
     (let claims = JWTClaims userID sessionID
            \<lparr>Issuer = Token_Issuer cfg, Subject = [], Audience = [Token_Issuer cfg],
             ExpiresAt = NewNumericDate (now0 + expiresIn),
             NotBefore = NewNumericDate now0,
             IssuedAt = NewNumericDate now0\<rparr>
      in case GenerateToken jwtAuth claims secret of
           Inl err \<Rightarrow> Inl err
         | Inr token \<Rightarrow> Inr token)"

text \<open>
  Clock readings of \<open>createAuthSession\<close>: 0 in \<open>CreateSession\<close>, 1 and 2 in the two
  \<open>generateToken\<close> calls, 3 for the expiry instants stored on the session.
\<close>

definition createAuthSession ::
  "AuthServiceConfig \<Rightarrow> JWTAuthenticator \<Rightarrow> Env \<Rightarrow> State \<Rightarrow> string \<Rightarrow> (error + Tokens) \<times> State" where
  "createAuthSession cfg jwtAuth env st userID =
     (case CreateSession (now env 0) (newID env 0)
             \<lparr>Session_ID = NilObjectID, Session_UserID = userID,
              Session_AccessToken = Malformed [], Session_RefreshToken = Malformed [],
              Session_AccessTokenExpiresAt = zeroTime, Session_RefreshTokenExpiresAt = zeroTime,
              Session_IPAddress = None, Session_UserAgent = None,
              Session_CreatedAt = zeroTime, Session_UpdatedAt = zeroTime\<rparr> (sessions st) of
        Inl err \<Rightarrow> (Inl err, st)
      | Inr (session, coll) \<Rightarrow>
          let st1 = st\<lparr>sessions := coll\<rparr> in
          (case generateToken cfg jwtAuth (now env 1) userID (Hex (Session_ID session))
                  (Token_AccessTokenSecret cfg) (Token_AccessTokenExpiresIn cfg) of
             Inl err \<Rightarrow> (Inl err, st1)
           | Inr accessToken \<Rightarrow>
               (case generateToken cfg jwtAuth (now env 2) userID (Hex (Session_ID session))
                       (Token_RefreshTokenSecret cfg) (Token_RefreshTokenExpiresIn cfg) of
                  Inl err \<Rightarrow> (Inl err, st1)
                | Inr refreshToken \<Rightarrow>
                    (case UpdateTokens (sessions st1) (Hex (Session_ID session))
                            \<lparr>Params_AccessToken = accessToken,
                             Params_RefreshToken = refreshToken,
                             Params_AccessTokenExpiresAt = now env 3 + Token_AccessTokenExpiresIn cfg,
                             Params_RefreshTokenExpiresAt = now env 3 + Token_RefreshTokenExpiresIn cfg\<rparr> of
                       (Inl err, coll') \<Rightarrow> (Inl err, st1\<lparr>sessions := coll'\<rparr>)
                     | (Inr _, coll') \<Rightarrow>
                         (Inr \<lparr>AccessToken = accessToken, RefreshToken = refreshToken\<rparr>,
                          st1\<lparr>sessions := coll'\<rparr>)))))"

text \<open>Clock readings of \<open>Login\<close>: 0 in \<open>UpdateLastLogin\<close>, then those of the session.\<close>

definition Login ::
  "AuthServiceConfig \<Rightarrow> JWTAuthenticator \<Rightarrow> Security \<Rightarrow> Env \<Rightarrow> State \<Rightarrow> LoginParams
     \<Rightarrow> (error + Tokens) \<times> State" where
  "Login cfg jwtAuth sec env st params =
     (case GetUserByEmail (users st) (Login_Email params) of
        Inl err \<Rightarrow>
          if err = ErrNoDocuments then (Inl ErrInvalidCredentials, st) else (Inl err, st)
      | Inr user \<Rightarrow>
          (case VerifyPassword sec (Login_Password params) (User_PasswordHash user) of
             Inl err \<Rightarrow> (Inl err, st)
           | Inr ok \<Rightarrow>
               if \<not> ok then (Inl ErrInvalidCredentials, st)
               else
                 (case UpdateLastLogin (now env 0) (identities st) (Hex (User_ID user)) of
                    (Some err, coll) \<Rightarrow> (Inl err, st\<lparr>identities := coll\<rparr>)
                  | (None, coll) \<Rightarrow>
                      createAuthSession cfg jwtAuth (later 1 0 env) (st\<lparr>identities := coll\<rparr>)
                        (Hex (User_ID user)))))"

text \<open>
  Clock readings and generated identifiers of \<open>Register\<close>: 0 in \<open>CreateUser\<close>, 1 in
  \<open>CreateIdentity\<close>, then those of the session.
\<close>

definition Register ::
  "AuthServiceConfig \<Rightarrow> JWTAuthenticator \<Rightarrow> Security \<Rightarrow> Env \<Rightarrow> State \<Rightarrow> RegisterParams
     \<Rightarrow> (error + Tokens) \<times> State" where
  "Register cfg jwtAuth sec env st params =
     (case HashPassword sec (Register_Password params) of
        Inl err \<Rightarrow> (Inl err, st)
      | Inr passwordHash \<Rightarrow>
          (case CreateUser (now env 0) (newID env 0)
                  \<lparr>User_ID = NilObjectID, User_Email = Register_Email params,
                   User_PasswordHash = passwordHash, User_Verified = False,
                   User_VerificationCode = [], User_VerificationCodeExpiresAt = zeroTime,
                   User_CreatedAt = zeroTime, User_UpdatedAt = zeroTime\<rparr> (users st) of
             Inl err \<Rightarrow>
               if err = DuplicateKeyError then (Inl ErrUserAlreadyExists, st) else (Inl err, st)
           | Inr (user, coll) \<Rightarrow>
               let st1 = st\<lparr>users := coll\<rparr> in
               (case CreateIdentity (now env 1) (newID env 1)
                       \<lparr>Identity_ID = NilObjectID, Identity_UserID = Hex (User_ID user),
                        Identity_ProviderID = [], Identity_Provider = ''email'',
                        Identity_Email = User_Email user, Identity_LastLoginAt = zeroTime,
                        Identity_CreatedAt = zeroTime, Identity_UpdatedAt = zeroTime\<rparr>
                       (identities st1) of
                  Inl err \<Rightarrow> (Inl err, st1)
                | Inr (_, coll') \<Rightarrow>
                    createAuthSession cfg jwtAuth (later 2 2 env) (st1\<lparr>identities := coll'\<rparr>)
                      (Hex (User_ID user)))))"

section \<open>The password-reset use case\<close>

definition generateJTI :: "Env \<Rightarrow> error + string" where
  "generateJTI env =
     (case randRead env of
        Inl err \<Rightarrow> Inl err
      | Inr bytes \<Rightarrow> Inr (EncodeToString bytes))"

definition generatePasswordResetToken ::
  "AuthServiceConfig \<Rightarrow> JWTAuthenticator \<Rightarrow> Env \<Rightarrow> Time \<Rightarrow> string \<Rightarrow> string
     \<Rightarrow> error + tokenString \<times> string" where
  "generatePasswordResetToken cfg jwtAuth env now0 userID email =
     (case generateJTI env of
        Inl err \<Rightarrow> Inl err
      | Inr jti \<Rightarrow>
          let claims = PasswordResetClaims userID email jti
                \<lparr>Issuer = Token_Issuer cfg, Subject = userID, Audience = [Token_Issuer cfg],
                 ExpiresAt = NewNumericDate (now0 + Token_PasswordResetTokenExpiresIn cfg),
                 NotBefore = NewNumericDate now0,
                 IssuedAt = NewNumericDate now0\<rparr>
          in case GenerateToken jwtAuth claims (Token_PasswordResetTokenSecret cfg) of
               Inl err \<Rightarrow> Inl err
             | Inr tokenStr \<Rightarrow> Inr (tokenStr, jti))"

text \<open>
  Clock readings of \<open>RequestPasswordReset\<close>: 0 in \<open>InvalidateUserTokens\<close>, 1 in
  \<open>generatePasswordResetToken\<close>, 2 for \<open>ExpiresAt\<close> of the record, 3 in
  \<open>CreateToken\<close>.
\<close>

definition RequestPasswordReset ::
  "AuthServiceConfig \<Rightarrow> JWTAuthenticator \<Rightarrow> Env \<Rightarrow> State \<Rightarrow> string \<Rightarrow> error option \<times> State" where
  "RequestPasswordReset cfg jwtAuth env st email =
     (case GetUserByEmail (users st) email of
        Inl err \<Rightarrow> if err = ErrNoDocuments then (None, st) else (Some err, st)
      | Inr user \<Rightarrow>
          (case InvalidateUserTokens (now env 0) (password_reset_tokens st) (Hex (User_ID user)) of
             (Some err, coll) \<Rightarrow> (Some err, st\<lparr>password_reset_tokens := coll\<rparr>)
           | (None, coll) \<Rightarrow>
               let st1 = st\<lparr>password_reset_tokens := coll\<rparr> in
               (case generatePasswordResetToken cfg jwtAuth env (now env 1)
                       (Hex (User_ID user)) (User_Email user) of
                  Inl err \<Rightarrow> (Some err, st1)
                | Inr (tokenStr, jti) \<Rightarrow>
                    let resetToken =
                          \<lparr>Reset_ID = NilObjectID, Reset_UserID = User_ID user, Reset_JTI = jti,
                           Reset_Email = User_Email user, Reset_Used = False,
                           Reset_ExpiresAt = now env 2 + Token_PasswordResetTokenExpiresIn cfg,
                           Reset_CreatedAt = zeroTime, Reset_UpdatedAt = zeroTime\<rparr>
                    in (case CreateToken (now env 3) (newID env 0) resetToken
                               (password_reset_tokens st1) of
                          Inl err \<Rightarrow> (Some err, st1)
                        | Inr (_, coll') \<Rightarrow>
                            let st2 = st1\<lparr>password_reset_tokens := coll'\<rparr> in
                            (case SendHTML (dialAndSend env) [User_Email user]
                                    ''Password Reset Request''
                                    (ResetMail (AppPasswordResetURL cfg) tokenStr
                                       (Token_PasswordResetTokenExpiresIn cfg)) (outbox st2) of
                               (Some err, sent) \<Rightarrow> (Some err, st2\<lparr>outbox := sent\<rparr>)
                             | (None, sent) \<Rightarrow> (None, st2\<lparr>outbox := sent\<rparr>))))))"

text \<open>
  Clock readings of \<open>ResetPassword\<close>: 0 for the expiry check, 1 in \<open>UpdateUser\<close>,
  2 in \<open>MarkTokenAsUsed\<close>.
\<close>

definition ResetPassword ::
  "Security \<Rightarrow> Env \<Rightarrow> State \<Rightarrow> string \<Rightarrow> string \<Rightarrow> error option \<times> State" where
  "ResetPassword sec env st jti newPassword =
     (case GetTokenByJTI (password_reset_tokens st) jti of
        Inl err \<Rightarrow> if err = ErrNoDocuments then (Some ErrTokenNotFound, st) else (Some err, st)
      | Inr resetToken \<Rightarrow>
          if Reset_Used resetToken then (Some ErrTokenAlreadyUsed, st)
          else if now env 0 > Reset_ExpiresAt resetToken then (Some ErrTokenExpired, st)
          else
            (case HashPassword sec newPassword of
               Inl err \<Rightarrow> (Some err, st)
             | Inr passwordHash \<Rightarrow>
                 (case UpdateUser (now env 1) (users st) (Hex (Reset_UserID resetToken))
                         \<lparr>Params_Email = None, Params_PasswordHash = Some passwordHash\<rparr> of
                    (Inl err, coll) \<Rightarrow> (Some err, st\<lparr>users := coll\<rparr>)
                  | (Inr _, coll) \<Rightarrow>
                      let st1 = st\<lparr>users := coll\<rparr> in
                      (case MarkTokenAsUsed (now env 2) (password_reset_tokens st1) jti of
                         (Some err, coll') \<Rightarrow> (Some err, st1\<lparr>password_reset_tokens := coll'\<rparr>)
                       | (None, coll') \<Rightarrow> (None, st1\<lparr>password_reset_tokens := coll'\<rparr>)))))"

text \<open>
  \<open>ValidatePasswordResetToken\<close> calls \<open>GetTokenByJTI\<close> and nothing else of the
  repositories, so it takes the state and returns only its error.
\<close>

definition ValidatePasswordResetToken :: "Time \<Rightarrow> State \<Rightarrow> string \<Rightarrow> error option" where
  "ValidatePasswordResetToken now0 st jti =
     (case GetTokenByJTI (password_reset_tokens st) jti of
        Inl err \<Rightarrow> if err = ErrNoDocuments then Some ErrTokenNotFound else Some err
      | Inr resetToken \<Rightarrow>
          if Reset_Used resetToken then Some ErrTokenAlreadyUsed
          else if now0 > Reset_ExpiresAt resetToken then Some ErrTokenExpired
          else None)"

subsection \<open>Concurrent calls of ResetPassword\<close>

text \<open>
  \<open>ResetPassword\<close> talks to the store three times: \<open>GetTokenByJTI\<close>, \<open>UpdateUser\<close>,
  \<open>MarkTokenAsUsed\<close>. Each of them is one atomic operation of the store; between
  them another call may run. A call in progress is at one of these three points
  or has returned; \<open>ResetPassword_step\<close> runs a call from its point up to and
  including the next store operation.
\<close>

datatype pc =
    AtGetTokenByJTI
  | AtUpdateUser PasswordResetToken
  | AtMarkTokenAsUsed
  | Returned "error option"

definition ResetPassword_step ::
  "Security \<Rightarrow> Env \<Rightarrow> string \<Rightarrow> string \<Rightarrow> pc \<Rightarrow> State \<Rightarrow> pc \<times> State" where
  "ResetPassword_step sec env jti newPassword p st =
     (case p of
        AtGetTokenByJTI \<Rightarrow>
          (case GetTokenByJTI (password_reset_tokens st) jti of
             Inl err \<Rightarrow>
               if err = ErrNoDocuments then (Returned (Some ErrTokenNotFound), st)
               else (Returned (Some err), st)
           | Inr resetToken \<Rightarrow>
               if Reset_Used resetToken then (Returned (Some ErrTokenAlreadyUsed), st)
               else if now env 0 > Reset_ExpiresAt resetToken then (Returned (Some ErrTokenExpired), st)
               else (AtUpdateUser resetToken, st))
      | AtUpdateUser resetToken \<Rightarrow>
          (case HashPassword sec newPassword of
             Inl err \<Rightarrow> (Returned (Some err), st)
           | Inr passwordHash \<Rightarrow>
               (case UpdateUser (now env 1) (users st) (Hex (Reset_UserID resetToken))
                       \<lparr>Params_Email = None, Params_PasswordHash = Some passwordHash\<rparr> of
                  (Inl err, coll) \<Rightarrow> (Returned (Some err), st\<lparr>users := coll\<rparr>)
                | (Inr _, coll) \<Rightarrow> (AtMarkTokenAsUsed, st\<lparr>users := coll\<rparr>)))
      | AtMarkTokenAsUsed \<Rightarrow>
          (case MarkTokenAsUsed (now env 2) (password_reset_tokens st) jti of
             (Some err, coll') \<Rightarrow> (Returned (Some err), st\<lparr>password_reset_tokens := coll'\<rparr>)
           | (None, coll') \<Rightarrow> (Returned None, st\<lparr>password_reset_tokens := coll'\<rparr>))
      | Returned r \<Rightarrow> (Returned r, st))"

text \<open>
  A schedule names, step by step, the call that moves. All calls of a run carry
  the same JTI and their own environment and new password.
\<close>

fun interleave ::
  "Security \<Rightarrow> string \<Rightarrow> nat list \<Rightarrow> (Env \<times> string \<times> pc) list \<times> State
     \<Rightarrow> (Env \<times> string \<times> pc) list \<times> State" where
  "interleave sec jti [] (calls, st) = (calls, st)"
| "interleave sec jti (i # sched) (calls, st) =
     (if i < length calls
      then (case calls ! i of
              (env, newPassword, p) \<Rightarrow>
                (case ResetPassword_step sec env jti newPassword p st of
                   (p', st') \<Rightarrow>
                     interleave sec jti sched (calls[i := (env, newPassword, p')], st')))
      else interleave sec jti sched (calls, st))"

text \<open>Calls made one after the other, each on the state the previous one left.\<close>

fun ResetPassword_seq ::
  "Security \<Rightarrow> string \<Rightarrow> (Env \<times> string) list \<Rightarrow> State \<Rightarrow> error option list \<times> State" where
  "ResetPassword_seq sec jti [] st = ([], st)"
| "ResetPassword_seq sec jti ((env, newPassword) # calls) st =
     (case ResetPassword sec env st jti newPassword of
        (r, st') \<Rightarrow>
          (case ResetPassword_seq sec jti calls st' of
             (rs, st'') \<Rightarrow> (r # rs, st'')))"

text \<open>Requests for a reset made one after the other.\<close>

fun RequestPasswordReset_seq ::
  "AuthServiceConfig \<Rightarrow> JWTAuthenticator \<Rightarrow> (Env \<times> string) list \<Rightarrow> State \<Rightarrow> State" where
  "RequestPasswordReset_seq cfg jwtAuth [] st = st"
| "RequestPasswordReset_seq cfg jwtAuth ((env, email) # calls) st =
     RequestPasswordReset_seq cfg jwtAuth calls (snd (RequestPasswordReset cfg jwtAuth env st email))"

text \<open>The unused reset tokens a user owns.\<close>

definition unused_tokens :: "State \<Rightarrow> ObjectID \<Rightarrow> PasswordResetToken list" where
  "unused_tokens st uid =
     filter (\<lambda>t. Reset_UserID t = uid \<and> \<not> Reset_Used t) (password_reset_tokens st)"

section \<open>shared/interceptor/jwt.go: the request-authorization gate\<close>

text \<open>
  Incoming metadata maps lower-case keys to lists of values; \<open>MD_Get\<close> lower-cases
  the key it is asked for. \<open>ToLower\<close> changes the ASCII capitals; that is all of
  \<open>strings.ToLower\<close> that a comparison with \<open>bearer\<close> can see. \<open>SplitN_2\<close> is
  \<open>strings.SplitN(s, sep, 2)\<close> for a separator of one character. The context
  carries the metadata, if any, and the value stored under \<open>UserClaimsKey\<close>.
  The header gives the token as a string; \<open>wire\<close> reads that string as the token
  it spells. What \<open>extractAndValidateJWT\<close> prints to the console is not part of
  the model.
\<close>

definition ToLower :: "string \<Rightarrow> string" where
  "ToLower s =
     map (\<lambda>c. case map_of (zip ''ABCDEFGHIJKLMNOPQRSTUVWXYZ'' ''abcdefghijklmnopqrstuvwxyz'') c of
                None \<Rightarrow> c
              | Some l \<Rightarrow> l) s"

definition SplitN_2 :: "string \<Rightarrow> char \<Rightarrow> string list" where
  "SplitN_2 s sep =
     (case dropWhile (\<lambda>c. c \<noteq> sep) s of
        [] \<Rightarrow> [s]
      | _ # rest \<Rightarrow> [takeWhile (\<lambda>c. c \<noteq> sep) s, rest])"

type_synonym MD = "string \<Rightarrow> string list option"

definition MD_Get :: "MD \<Rightarrow> string \<Rightarrow> string list" where
  "MD_Get md k = (case md (ToLower k) of None \<Rightarrow> [] | Some vs \<Rightarrow> vs)"

record Context =
  Context_md :: "MD option"
  Context_UserClaims :: "Claims option"

record UnaryServerInfo =
  FullMethod :: string

definition extractAndValidateJWT ::
  "(string \<Rightarrow> tokenString) \<Rightarrow> Time \<Rightarrow> Context \<Rightarrow> JWTAuthenticator \<Rightarrow> string \<Rightarrow> error + Claims" where
  "extractAndValidateJWT wire now0 ctx jwtAuth secret =
     (case Context_md ctx of
        None \<Rightarrow> Inl (ErrorString ''missing metadata'')
      | Some md \<Rightarrow>
          (case MD_Get md ''Authorization'' of
             [] \<Rightarrow> Inl (ErrorString ''missing authorization header'')
           | authHeader # _ \<Rightarrow>
               (case SplitN_2 authHeader CHR '' '' of
                  [scheme, tokenString] \<Rightarrow>
                    if ToLower scheme \<noteq> ''bearer''
                    then Inl (ErrorString ''invalid authorization header format'')
                    else (case ValidateTokenWithClaims jwtAuth now0 (wire tokenString) secret of
                            Inl err \<Rightarrow> Inl err
                          | Inr token \<Rightarrow> Inr (Token_Claims token))
                | _ \<Rightarrow> Inl (ErrorString ''invalid authorization header format''))))"

definition exemptMap :: "string list \<Rightarrow> string \<Rightarrow> bool" where
  "exemptMap exemptMethods = foldl (\<lambda>m method. m(method := True)) (\<lambda>_. False) exemptMethods"

definition NewJWTInterceptor ::
  "(string \<Rightarrow> tokenString) \<Rightarrow> JWTAuthenticator \<Rightarrow> string \<Rightarrow> string list
     \<Rightarrow> Time \<Rightarrow> Context \<Rightarrow> 'req \<Rightarrow> UnaryServerInfo \<Rightarrow> (Context \<Rightarrow> 'req \<Rightarrow> error + 'resp)
     \<Rightarrow> error + 'resp" where
  "NewJWTInterceptor wire jwtAuth secret exemptMethods now0 ctx req info handler =
     (if exemptMap exemptMethods (FullMethod info) then handler ctx req
      else case extractAndValidateJWT wire now0 ctx jwtAuth secret of
             Inl err \<Rightarrow> Inl (StatusError Unauthenticated err)
           | Inr claims \<Rightarrow> handler (ctx\<lparr>Context_UserClaims := Some claims\<rparr>) req)"

section \<open>A scenario\<close>

text \<open>
  Concrete collaborators, configuration and states on which the theorems below
  are exercised: a password hash that prefixes the password, lifetimes of whole
  seconds, Alice as the only user, and a store holding one reset token \<open>J1\<close> of
  hers.
\<close>

definition sec0 :: Security where
  "sec0 = \<lparr>HashPassword = (\<lambda>p. Inr (''h:'' @ p)),
           VerifyPassword = (\<lambda>p h. Inr (h = ''h:'' @ p))\<rparr>"

definition cfg0 :: AuthServiceConfig where
  "cfg0 = \<lparr>Token_Issuer = ''money-tracker'',
           Token_AccessTokenSecret = ''access-secret'',
           Token_AccessTokenExpiresIn = 900 * 1000000000,
           Token_RefreshTokenSecret = ''refresh-secret'',
           Token_RefreshTokenExpiresIn = 604800 * 1000000000,
           Token_PasswordResetTokenSecret = ''reset-secret'',
           Token_PasswordResetTokenExpiresIn = 1800 * 1000000000,
           AppPasswordResetURL = ''https://app.example.com/reset''\<rparr>"

definition auth0 :: JWTAuthenticator where
  "auth0 = NewJWTAuthenticator ''money-tracker'' ''money-tracker''"

definition env0 :: Env where
  "env0 = \<lparr>now = (\<lambda>i. 1000 + int i), newID = (\<lambda>j. 100 + of_nat j),
           randRead = Inr [0x4a, 0x31], dialAndSend = None\<rparr>"

definition alice :: User where
  "alice = \<lparr>User_ID = 1, User_Email = ''alice@example.com'', User_PasswordHash = ''h:Secret123!'',
            User_Verified = False, User_VerificationCode = [],
            User_VerificationCodeExpiresAt = 0, User_CreatedAt = 0, User_UpdatedAt = 0\<rparr>"

definition reset_J1 :: "bool \<Rightarrow> Time \<Rightarrow> PasswordResetToken" where
  "reset_J1 used expiresAt =
     \<lparr>Reset_ID = 7, Reset_UserID = 1, Reset_JTI = ''J1'', Reset_Email = ''alice@example.com'',
      Reset_Used = used, Reset_ExpiresAt = expiresAt, Reset_CreatedAt = 0, Reset_UpdatedAt = 0\<rparr>"

definition st0 :: "PasswordResetToken list \<Rightarrow> State" where
  "st0 toks = \<lparr>users = [alice], identities = [], sessions = [], password_reset_tokens = toks,
              outbox = []\<rparr>"

text \<open>
  A session token of Alice's as the gate meets it: the wire string \<open>tok-alice\<close>
  spells a token signed under the access secret; every other string spells no
  token. The handler answers with the claims it finds in its context.
\<close>

definition claims0 :: "Time option \<Rightarrow> Claims" where
  "claims0 exp = JWTClaims (Hex 1) (Hex 100)
     \<lparr>Issuer = ''money-tracker'', Subject = [], Audience = [''money-tracker''],
      ExpiresAt = exp, NotBefore = Some 1000000000000, IssuedAt = Some 1000000000000\<rparr>"

definition wire0 :: "string \<Rightarrow> tokenString" where
  "wire0 s =
     (if s = ''tok-alice''
      then Compact HS256 (claims0 (Some 1900000000000)) (Sign HS256 ''access-secret'' (claims0 (Some 1900000000000)))
      else Malformed s)"

definition ctx0 :: "string list \<Rightarrow> Context" where
  "ctx0 hs = \<lparr>Context_md = Some [''authorization'' \<mapsto> hs], Context_UserClaims = None\<rparr>"

definition handler0 :: "Context \<Rightarrow> string \<Rightarrow> error + Claims option" where
  "handler0 ctx req = Inr (Context_UserClaims ctx)"



section \<open>Properties of the identifiers and of the store\<close>

lemma hexval_hexdigit: "d < 16 \<Longrightarrow> hexval (hexdigit d) = Some d"
proof -
  assume "d < 16"
  then consider "d = 0" | "d = 1" | "d = 2" | "d = 3" | "d = 4" | "d = 5" | "d = 6" | "d = 7"
    | "d = 8" | "d = 9" | "d = 10" | "d = 11" | "d = 12" | "d = 13" | "d = 14" | "d = 15"
    by atomize_elim arith
  then show ?thesis
    by cases (simp_all add: hexdigit_def hexval_def)
qed

lemma those_map_hexval_hexdigits:
  "those (map hexval (hexdigits k n)) = Some (map (\<lambda>i. (n div 16 ^ i) mod 16) (rev [0..<k]))"
  by (induction k) (simp_all add: hexdigits_def hexval_hexdigit)

lemma foldl_digits:
  "foldl (\<lambda>a d. 16 * a + d) (a::nat) (map (\<lambda>i. (n div 16 ^ i) mod 16) (rev [0..<k])) = a * 16 ^ k + n mod 16 ^ k"
proof (induction k arbitrary: a)
  case 0
  then show ?case by simp
next
  case (Suc k)
  have "n mod (16 ^ k * 16) = 16 ^ k * (n div 16 ^ k mod 16) + n mod 16 ^ k"
    by (rule mod_mult2_eq)
  then show ?case using Suc by (simp add: algebra_simps)
qed

lemma length_hexdigits: "length (hexdigits k n) = k"
  by (simp add: hexdigits_def)

lemma ObjectIDFromHex_Hex: "ObjectIDFromHex (Hex oid) = Inr oid"
proof -
  have "unat oid < 2 ^ 96" using unsigned_less [of oid] by simp
  then have "unat oid mod 16 ^ 24 = unat oid" by simp
  then show ?thesis
    by (simp add: ObjectIDFromHex_def Hex_def length_hexdigits those_map_hexval_hexdigits foldl_digits)
qed

lemma FindOne_Inr: "FindOne flt coll = Inr d \<Longrightarrow> d \<in> set coll \<and> flt d"
  by (induction coll) (auto simp: FindOne_def split: if_splits)

lemma FindOne_Inl: "FindOne flt coll = Inl e \<longleftrightarrow> e = ErrNoDocuments \<and> (\<forall>d\<in>set coll. \<not> flt d)"
  by (induction coll) (auto simp: FindOne_def)

lemma FindOne_first:
  "FindOne flt (xs @ d # ys) = (if list_ex flt xs then FindOne flt xs else if flt d then Inr d else FindOne flt ys)"
  by (induction xs) (auto simp: FindOne_def)

lemma hexdigits_2: "hexdigits 2 n = [hexdigit (n div 16 mod 16), hexdigit (n mod 16)]"
proof -
  have "[0..<2] = [0, 1]" by (simp add: upt_rec)
  then show ?thesis by (simp add: hexdigits_def)
qed

lemma Hex_inject: "Hex a = Hex b \<longleftrightarrow> a = b"
proof
  assume "Hex a = Hex b"
  then have "ObjectIDFromHex (Hex a) = ObjectIDFromHex (Hex b)" by simp
  then show "a = b" by (simp add: ObjectIDFromHex_Hex)
qed simp

lemma GetTokenByJTI_Inl:
  "GetTokenByJTI coll jti = Inl e \<longleftrightarrow> e = ErrNoDocuments \<and> (\<forall>t\<in>set coll. Reset_JTI t \<noteq> jti)"
  by (simp add: GetTokenByJTI_def FindOne_Inl)

section \<open>The password-reset protocol\<close>

text \<open>
  Claim C3, as the code has it. \<open>ValidatePasswordResetToken\<close> only reads the store.
  It returns no error exactly when the store returns a record for the JTI that is
  unused and whose expiry is not before the current time: the check is
  \<open>time.Now().After(ExpiresAt)\<close>, so a call at the very instant of expiry still
  succeeds. It returns \<open>ErrTokenNotFound\<close> exactly when no record carries the JTI,
  \<open>ErrTokenAlreadyUsed\<close> exactly when the record is used, and \<open>ErrTokenExpired\<close>
  exactly when the record is unused and the current time is after its expiry.
  The result is a function of the store, the JTI and the side of the expiry the
  clock is on, so repeated calls on an unchanged store agree as long as the clock
  has not passed the expiry in between.
\<close>

theorem validate_token_amended:
  "(ValidatePasswordResetToken now0 st jti = None \<longleftrightarrow>
      (\<exists>t. GetTokenByJTI (password_reset_tokens st) jti = Inr t \<and> \<not> Reset_Used t
            \<and> now0 \<le> Reset_ExpiresAt t)) \<and>
   (ValidatePasswordResetToken now0 st jti = Some ErrTokenNotFound \<longleftrightarrow>
      (\<forall>t\<in>set (password_reset_tokens st). Reset_JTI t \<noteq> jti)) \<and>
   (ValidatePasswordResetToken now0 st jti = Some ErrTokenAlreadyUsed \<longleftrightarrow>
      (\<exists>t. GetTokenByJTI (password_reset_tokens st) jti = Inr t \<and> Reset_Used t)) \<and>
   (ValidatePasswordResetToken now0 st jti = Some ErrTokenExpired \<longleftrightarrow>
      (\<exists>t. GetTokenByJTI (password_reset_tokens st) jti = Inr t \<and> \<not> Reset_Used t
            \<and> Reset_ExpiresAt t < now0)) \<and>
   ((\<forall>t. GetTokenByJTI (password_reset_tokens st) jti = Inr t \<longrightarrow>
          (Reset_ExpiresAt t < now0 \<longleftrightarrow> Reset_ExpiresAt t < now1)) \<longrightarrow>
      ValidatePasswordResetToken now0 st jti = ValidatePasswordResetToken now1 st jti)"
proof (cases "GetTokenByJTI (password_reset_tokens st) jti")
  case (Inl e)
  then have e: "e = ErrNoDocuments"
    and no: "\<forall>t\<in>set (password_reset_tokens st). Reset_JTI t \<noteq> jti"
    by (simp_all add: GetTokenByJTI_Inl)
  show ?thesis
    unfolding ValidatePasswordResetToken_def Inl using e no by simp
next
  case (Inr t)
  then have "\<exists>t\<in>set (password_reset_tokens st). Reset_JTI t = jti"
    unfolding GetTokenByJTI_def by (auto dest: FindOne_Inr)
  with Inr show ?thesis
    by (auto simp: ValidatePasswordResetToken_def)
qed

theorem validate_token_amended_witness:
  "ValidatePasswordResetToken 1000 (st0 [reset_J1 False 2000]) ''J2'' = Some ErrTokenNotFound \<and>
   ValidatePasswordResetToken 1000 (st0 [reset_J1 False 2000]) ''J1'' = None \<and>
   ValidatePasswordResetToken 1000 (st0 [reset_J1 True 2000]) ''J1'' = Some ErrTokenAlreadyUsed \<and>
   ValidatePasswordResetToken 2001 (st0 [reset_J1 False 2000]) ''J1'' = Some ErrTokenExpired \<and>
   ValidatePasswordResetToken 1000 (st0 [reset_J1 False 2000]) ''J1''
     = ValidatePasswordResetToken 1500 (st0 [reset_J1 False 2000]) ''J1''"
proof -
  have g: "GetTokenByJTI (password_reset_tokens (st0 [reset_J1 u e])) ''J1'' = Inr (reset_J1 u e)" for u e
    by (simp add: GetTokenByJTI_def FindOne_def st0_def reset_J1_def)
  have s: "Reset_Used (reset_J1 u e) = u" "Reset_ExpiresAt (reset_J1 u e) = e" for u e
    by (simp_all add: reset_J1_def)
  have n: "\<forall>t\<in>set (password_reset_tokens (st0 [reset_J1 False 2000])). Reset_JTI t \<noteq> ''J2''"
    by (simp add: st0_def reset_J1_def)
  show ?thesis
    using validate_token_amended [of 1000 "st0 [reset_J1 False 2000]" "''J2''" 1000]
      validate_token_amended [of 1000 "st0 [reset_J1 False 2000]" "''J1''" 1500]
      validate_token_amended [of 1000 "st0 [reset_J1 True 2000]" "''J1''" 1000]
      validate_token_amended [of 2001 "st0 [reset_J1 False 2000]" "''J1''" 2001]
      n
    by (auto simp: g s)
qed

text \<open>
  Claim C3 as stated asks for success only while the current time is before the
  expiry, and for the same result from every repeated call on an unchanged
  store. At the instant of expiry the code still succeeds, and the next call,
  an instant later on the same store, fails.
\<close>

theorem validate_at_expiry_counterexample:
  "ValidatePasswordResetToken 2000 (st0 [reset_J1 False 2000]) ''J1'' = None \<and>
   GetTokenByJTI (password_reset_tokens (st0 [reset_J1 False 2000])) ''J1'' = Inr (reset_J1 False 2000) \<and>
   \<not> 2000 < Reset_ExpiresAt (reset_J1 False 2000) \<and>
   ValidatePasswordResetToken 2001 (st0 [reset_J1 False 2000]) ''J1'' = Some ErrTokenExpired"
  by (simp add: ValidatePasswordResetToken_def GetTokenByJTI_def FindOne_def st0_def reset_J1_def)

text \<open>
  Claim C10. For a record that is both used and past its expiry, validation and
  reset both report \<open>ErrTokenAlreadyUsed\<close>, and the reset leaves the state as it
  was: the used check comes before the expiry check.
\<close>

theorem used_takes_precedence:
  assumes "GetTokenByJTI (password_reset_tokens st) jti = Inr t"
    and "Reset_Used t"
    and "now0 > Reset_ExpiresAt t" and "now env 0 > Reset_ExpiresAt t"
  shows "ValidatePasswordResetToken now0 st jti = Some ErrTokenAlreadyUsed \<and>
         ResetPassword sec env st jti newPassword = (Some ErrTokenAlreadyUsed, st)"
  using assms by (simp add: ValidatePasswordResetToken_def ResetPassword_def)

theorem used_takes_precedence_witness:
  "GetTokenByJTI (password_reset_tokens (st0 [reset_J1 True 500])) ''J1'' = Inr (reset_J1 True 500) \<and>
   Reset_Used (reset_J1 True 500) \<and>
   1000 > Reset_ExpiresAt (reset_J1 True 500) \<and> now env0 0 > Reset_ExpiresAt (reset_J1 True 500) \<and>
   ValidatePasswordResetToken 1000 (st0 [reset_J1 True 500]) ''J1'' = Some ErrTokenAlreadyUsed \<and>
   ResetPassword sec0 env0 (st0 [reset_J1 True 500]) ''J1'' ''New1!''
     = (Some ErrTokenAlreadyUsed, st0 [reset_J1 True 500])"
proof -
  have g: "GetTokenByJTI (password_reset_tokens (st0 [reset_J1 True 500])) ''J1'' = Inr (reset_J1 True 500)"
    by (simp add: GetTokenByJTI_def FindOne_def st0_def reset_J1_def)
  have s: "Reset_Used (reset_J1 True 500)" "1000 > Reset_ExpiresAt (reset_J1 True 500)"
    "now env0 0 > Reset_ExpiresAt (reset_J1 True 500)"
    by (simp_all add: reset_J1_def env0_def)
  show ?thesis
    using used_takes_precedence [OF g s, of sec0 "''New1!''"] g s by simp
qed

text \<open>
  Claim C4. For an email that no user record carries, \<open>RequestPasswordReset\<close>
  returns no error and the state it returns is the state it was given: no token
  is invalidated or created and no mail is sent.
\<close>

theorem unknown_email_no_effect:
  assumes "\<forall>u\<in>set (users st). User_Email u \<noteq> email"
  shows "RequestPasswordReset cfg jwtAuth env st email = (None, st)"
proof -
  from assms have "GetUserByEmail (users st) email = Inl ErrNoDocuments"
    by (simp add: GetUserByEmail_def FindOne_Inl)
  then show ?thesis by (simp add: RequestPasswordReset_def)
qed

theorem unknown_email_no_effect_witness:
  "RequestPasswordReset cfg0 auth0 env0 (st0 [reset_J1 False 2000]) ''bob@example.com''
     = (None, st0 [reset_J1 False 2000])"
proof -
  have h: "\<forall>u\<in>set (users (st0 [reset_J1 False 2000])). User_Email u \<noteq> ''bob@example.com''"
    by (simp add: st0_def alice_def)
  show ?thesis using unknown_email_no_effect [OF h] by simp
qed

section \<open>Login and registration\<close>

lemma GetUserByEmail_Inl:
  "GetUserByEmail coll email = Inl e \<longleftrightarrow> e = ErrNoDocuments \<and> (\<forall>u\<in>set coll. User_Email u \<noteq> email)"
  by (simp add: GetUserByEmail_def FindOne_Inl)

lemma CreateUser_duplicate:
  assumes "\<exists>u\<in>set coll. User_Email u = User_Email user"
  shows "CreateUser now0 gen user coll = Inl DuplicateKeyError"
proof -
  from assms have "list_ex (\<lambda>e. User_ID e = ensureID gen (User_ID user) \<or> User_Email e = User_Email user) coll"
    by (auto simp: list_ex_iff)
  then show ?thesis
    by (simp add: CreateUser_def InsertOne_def Let_def)
qed

text \<open>
  Claim C5. A login with an email that no user record carries and a login with
  the email of a user and a password that \<open>VerifyPassword\<close> finds wrong return the
  same value, \<open>ErrInvalidCredentials\<close>, and leave the state as it was.
\<close>

theorem login_failures_indistinguishable:
  assumes unknown: "\<forall>u\<in>set (users st). User_Email u \<noteq> Login_Email p1"
    and known: "GetUserByEmail (users st) (Login_Email p2) = Inr user"
    and wrong: "VerifyPassword sec (Login_Password p2) (User_PasswordHash user) = Inr False"
  shows "Login cfg jwtAuth sec env st p1 = (Inl ErrInvalidCredentials, st) \<and>
         Login cfg jwtAuth sec env st p2 = (Inl ErrInvalidCredentials, st)"
proof -
  from unknown have "GetUserByEmail (users st) (Login_Email p1) = Inl ErrNoDocuments"
    by (simp add: GetUserByEmail_Inl)
  then have "Login cfg jwtAuth sec env st p1 = (Inl ErrInvalidCredentials, st)"
    by (simp add: Login_def)
  moreover from known wrong have "Login cfg jwtAuth sec env st p2 = (Inl ErrInvalidCredentials, st)"
    by (simp add: Login_def)
  ultimately show ?thesis by simp
qed

theorem login_failures_indistinguishable_witness:
  "Login cfg0 auth0 sec0 env0 (st0 [])
      \<lparr>Login_Email = ''bob@example.com'', Login_Password = ''Secret123!''\<rparr>
     = (Inl ErrInvalidCredentials, st0 []) \<and>
   Login cfg0 auth0 sec0 env0 (st0 [])
      \<lparr>Login_Email = ''alice@example.com'', Login_Password = ''guess''\<rparr>
     = (Inl ErrInvalidCredentials, st0 [])"
proof -
  have u: "\<forall>u\<in>set (users (st0 [])).
             User_Email u \<noteq> Login_Email \<lparr>Login_Email = ''bob@example.com'', Login_Password = ''Secret123!''\<rparr>"
    by (simp add: st0_def alice_def)
  have k: "GetUserByEmail (users (st0 []))
             (Login_Email \<lparr>Login_Email = ''alice@example.com'', Login_Password = ''guess''\<rparr>) = Inr alice"
    by (simp add: GetUserByEmail_def FindOne_def st0_def alice_def)
  have w: "VerifyPassword sec0 (Login_Password \<lparr>Login_Email = ''alice@example.com'', Login_Password = ''guess''\<rparr>)
             (User_PasswordHash alice) = Inr False"
    by (simp add: sec0_def alice_def)
  show ?thesis
    using login_failures_indistinguishable [OF u k w] by simp
qed

text \<open>
  Claim C7. When a user record already carries the email, \<open>Register\<close> returns an
  error and the state it was given: no user, identity or session is created.
  The error is \<open>ErrUserAlreadyExists\<close> whenever the password could be hashed, the
  step that precedes the insertion.
\<close>

theorem register_existing_email:
  assumes "\<exists>u\<in>set (users st). User_Email u = Register_Email params"
  shows "snd (Register cfg jwtAuth sec env st params) = st \<and>
         (\<exists>err. fst (Register cfg jwtAuth sec env st params) = Inl err) \<and>
         (\<forall>h. HashPassword sec (Register_Password params) = Inr h \<longrightarrow>
              Register cfg jwtAuth sec env st params = (Inl ErrUserAlreadyExists, st))"
proof (cases "HashPassword sec (Register_Password params)")
  case (Inl err)
  then show ?thesis by (simp add: Register_def)
next
  case (Inr h)
  have "CreateUser (now env 0) (newID env 0)
          \<lparr>User_ID = NilObjectID, User_Email = Register_Email params,
           User_PasswordHash = h, User_Verified = False,
           User_VerificationCode = [], User_VerificationCodeExpiresAt = zeroTime,
           User_CreatedAt = zeroTime, User_UpdatedAt = zeroTime\<rparr> (users st) = Inl DuplicateKeyError"
    using assms by (intro CreateUser_duplicate) simp
  with Inr show ?thesis by (simp add: Register_def)
qed

theorem register_existing_email_witness:
  "Register cfg0 auth0 sec0 env0 (st0 [])
      \<lparr>Register_Email = ''alice@example.com'', Register_Password = ''Other456!''\<rparr>
     = (Inl ErrUserAlreadyExists, st0 [])"
proof -
  have e: "\<exists>u\<in>set (users (st0 [])).
             User_Email u = Register_Email \<lparr>Register_Email = ''alice@example.com'', Register_Password = ''Other456!''\<rparr>"
    by (simp add: st0_def alice_def)
  have h: "HashPassword sec0 (Register_Password \<lparr>Register_Email = ''alice@example.com'', Register_Password = ''Other456!''\<rparr>)
             = Inr ''h:Other456!''"
    by (simp add: sec0_def)
  show ?thesis
    using register_existing_email [OF e, of cfg0 auth0 sec0 env0] h by simp
qed

section \<open>The token authenticator\<close>

lemma valid0:
  "ValidateTokenWithClaims auth0 1500000000000 (wire0 ''tok-alice'') ''access-secret''
     = Inr \<lparr>Token_Method = HS256, Token_Claims = claims0 (Some 1900000000000), Token_Valid = True\<rparr>"
  by (simp add: ValidateTokenWithClaims_def ParseWithClaims_def keyFunc_def Verify_def isHMAC_def
      Validate_def verifyExpiresAt_def verifyNotBefore_def verifyAudience_def verifyIssuer_def
      auth0_def NewJWTAuthenticator_def wire0_def claims0_def)

text \<open>
  Claim C8. \<open>ValidateTokenWithClaims\<close> rejects every token whose header names
  another algorithm than HS256, with the signature error, and every token whose
  claims have no expiry, whatever its other claims; when signature and key are
  right the missing expiry is the first of the claim errors. A token it accepts
  is signed with HS256 under the secret and carries an expiry that lies in the
  future.
\<close>

theorem authenticator_policy:
  "(m \<noteq> HS256 \<longrightarrow>
      ValidateTokenWithClaims a now0 (Compact m c sg) secret = Inl ErrTokenSignatureInvalid) \<and>
   (ExpiresAt (Registered c) = None \<longrightarrow>
      (\<exists>err. ValidateTokenWithClaims a now0 (Compact m c sg) secret = Inl err)) \<and>
   (ExpiresAt (Registered c) = None \<longrightarrow>
      (\<exists>errs. ValidateTokenWithClaims a now0 (Compact HS256 c (Sign HS256 secret c)) secret
                = Inl (ErrTokenInvalidClaims (ErrTokenRequiredClaimMissing # errs)))) \<and>
   (ValidateTokenWithClaims a now0 tokenString secret = Inr token \<longrightarrow>
      (\<exists>exp. tokenString = Compact HS256 (Token_Claims token) (Sign HS256 secret (Token_Claims token)) \<and>
             Token_Method token = HS256 \<and>
             ExpiresAt (Registered (Token_Claims token)) = Some exp \<and> now0 < exp))"
proof -
  have alg: "ValidateTokenWithClaims a now0 (Compact m c sg) secret = Inl ErrTokenSignatureInvalid"
    if "m \<noteq> HS256"
    using that by (simp add: ValidateTokenWithClaims_def ParseWithClaims_def)
  have v: "Validate now0 True aud iss (Registered c) = ErrTokenRequiredClaimMissing #
             (verifyNotBefore now0 (Registered c)
               @ (if aud \<noteq> [] then verifyAudience aud (Registered c) else [])
               @ (if iss \<noteq> [] then verifyIssuer iss (Registered c) else []))"
    if "ExpiresAt (Registered c) = None" for aud iss
    using that by (simp add: Validate_def verifyExpiresAt_def)
  have noexp: "\<exists>err. ValidateTokenWithClaims a now0 (Compact m c sg) secret = Inl err"
    if "ExpiresAt (Registered c) = None"
    using v [OF that]
    by (simp add: ValidateTokenWithClaims_def ParseWithClaims_def keyFunc_def split: sum.splits)
  have noexp': "\<exists>errs. ValidateTokenWithClaims a now0 (Compact HS256 c (Sign HS256 secret c)) secret
                = Inl (ErrTokenInvalidClaims (ErrTokenRequiredClaimMissing # errs))"
    if "ExpiresAt (Registered c) = None"
    using v [OF that]
    by (simp add: ValidateTokenWithClaims_def ParseWithClaims_def keyFunc_def Verify_def isHMAC_def)
  have acc: "\<exists>exp. tokenString = Compact HS256 (Token_Claims token) (Sign HS256 secret (Token_Claims token)) \<and>
             Token_Method token = HS256 \<and>
             ExpiresAt (Registered (Token_Claims token)) = Some exp \<and> now0 < exp"
    if ok: "ValidateTokenWithClaims a now0 tokenString secret = Inr token"
  proof (cases tokenString)
    case (Malformed s)
    with ok show ?thesis by (simp add: ValidateTokenWithClaims_def ParseWithClaims_def)
  next
    case (Compact m' c' sg')
    from ok Compact have m': "m' = HS256"
      by (auto simp: ValidateTokenWithClaims_def ParseWithClaims_def split: if_splits)
    from ok Compact m' have sg': "sg' = Sign HS256 secret c'"
      by (auto simp: ValidateTokenWithClaims_def ParseWithClaims_def keyFunc_def Verify_def isHMAC_def
          split: if_splits)
    from ok Compact m' sg' have val: "Validate now0 True (audience a) (issuer a) (Registered c') = []"
      and tok: "token = \<lparr>Token_Method = HS256, Token_Claims = c', Token_Valid = True\<rparr>"
      by (auto simp: ValidateTokenWithClaims_def ParseWithClaims_def keyFunc_def Verify_def isHMAC_def
          split: if_splits list.splits)
    from val have "verifyExpiresAt now0 True (Registered c') = []"
      by (simp add: Validate_def)
    then obtain exp where "ExpiresAt (Registered c') = Some exp" "now0 < exp"
      by (auto simp: verifyExpiresAt_def split: option.splits if_splits)
    with Compact m' sg' tok show ?thesis by simp
  qed
  show ?thesis using alg noexp noexp' acc by blast
qed

theorem authenticator_policy_witness:
  "ValidateTokenWithClaims auth0 1500000000000
      (Compact HS512 (claims0 (Some 1900000000000)) (Sign HS512 ''access-secret'' (claims0 (Some 1900000000000))))
      ''access-secret'' = Inl ErrTokenSignatureInvalid \<and>
   (\<exists>errs. ValidateTokenWithClaims auth0 1500000000000
      (Compact HS256 (claims0 None) (Sign HS256 ''access-secret'' (claims0 None))) ''access-secret''
        = Inl (ErrTokenInvalidClaims (ErrTokenRequiredClaimMissing # errs))) \<and>
   (\<exists>exp. ExpiresAt (Registered (claims0 (Some 1900000000000))) = Some exp \<and> 1500000000000 < exp)"
proof -
  have n: "ExpiresAt (Registered (claims0 None)) = None"
    by (simp add: claims0_def)
  show ?thesis
    using authenticator_policy [where m = HS512 and a = auth0 and ?now0.0 = 1500000000000
        and c = "claims0 (Some 1900000000000)"
        and sg = "Sign HS512 ''access-secret'' (claims0 (Some 1900000000000))"
        and secret = "''access-secret''" and tokenString = "wire0 ''tok-alice''"
        and token = "\<lparr>Token_Method = HS256, Token_Claims = claims0 (Some 1900000000000), Token_Valid = True\<rparr>"]
      authenticator_policy [where m = HS256 and a = auth0 and ?now0.0 = 1500000000000
        and c = "claims0 None" and sg = "Sign HS256 ''access-secret'' (claims0 None)"
        and secret = "''access-secret''" and tokenString = "Malformed []"]
      valid0 n
    by simp
qed

section \<open>The request-authorization gate\<close>

lemma exemptMap_iff: "exemptMap exemptMethods k \<longleftrightarrow> k \<in> set exemptMethods"
proof -
  have "foldl (\<lambda>m method. m(method := True)) f ms k \<longleftrightarrow> f k \<or> k \<in> set ms" for f ms
    by (induction ms arbitrary: f) auto
  then show ?thesis by (simp add: exemptMap_def)
qed

lemma SplitN_2_split:
  assumes "sep \<notin> set scheme"
  shows "SplitN_2 (scheme @ sep # rest) sep = [scheme, rest]"
proof -
  from assms have "dropWhile (\<lambda>c. c \<noteq> sep) (scheme @ sep # rest) = sep # rest"
    by (induction scheme) auto
  moreover from assms have "takeWhile (\<lambda>c. c \<noteq> sep) (scheme @ sep # rest) = scheme"
    by (induction scheme) auto
  ultimately show ?thesis by (simp add: SplitN_2_def)
qed

lemma SplitN_2_none:
  assumes "sep \<notin> set h"
  shows "SplitN_2 h sep = [h]"
proof -
  from assms have "dropWhile (\<lambda>c. c \<noteq> sep) h = []"
    by (induction h) auto
  then show ?thesis unfolding SplitN_2_def by (simp only: list.case)
qed

lemma SplitN_2_cases:
  "SplitN_2 h sep = [h] \<and> sep \<notin> set h \<or>
   (\<exists>scheme rest. SplitN_2 h sep = [scheme, rest] \<and> h = scheme @ sep # rest \<and> sep \<notin> set scheme)"
proof (cases "sep \<in> set h")
  case True
  then obtain ys zs where "h = ys @ sep # zs" "sep \<notin> set ys"
    by (auto dest: split_list_first)
  then show ?thesis using SplitN_2_split [of sep ys zs] by blast
next
  case False
  then show ?thesis by (simp add: SplitN_2_none)
qed

lemma ToLower_space:
  assumes "CHR '' '' \<in> set s"
  shows "CHR '' '' \<in> set (ToLower s)"
proof -
  let ?f = "\<lambda>c. case map_of (zip ''ABCDEFGHIJKLMNOPQRSTUVWXYZ'' ''abcdefghijklmnopqrstuvwxyz'') c of
                   None \<Rightarrow> c | Some l \<Rightarrow> l"
  have "?f CHR '' '' = CHR '' ''" by simp
  with assms have "CHR '' '' \<in> ?f ` set s" by (intro image_eqI [of _ _ "CHR '' ''"]) simp_all
  then show ?thesis by (simp add: ToLower_def)
qed

lemma bearer_no_space: "ToLower scheme = ''bearer'' \<Longrightarrow> CHR '' '' \<notin> set scheme"
  using ToLower_space [of scheme] by auto

lemma ToLower_Authorization: "ToLower ''Authorization'' = ''authorization''"
  by (simp add: ToLower_def)

text \<open>
  Claim C9. For an exempt method the interceptor's result is the handler's on the
  unchanged context and request. For any other method it is an \<open>Unauthenticated\<close>
  status when the context has no metadata, when the metadata has no
  \<open>authorization\<close> value, when the first value is not a scheme that lower-cases to
  \<open>bearer\<close>, a space and a token, and when the authenticator rejects the token;
  and when the authenticator accepts the token, it is the handler's result on the
  context with the token's claims stored under \<open>UserClaimsKey\<close>.
\<close>

theorem gate_cases:
  fixes handler :: "Context \<Rightarrow> 'req \<Rightarrow> error + 'resp"
  shows
  "(FullMethod info \<in> set exemptMethods \<longrightarrow>
      NewJWTInterceptor wire jwtAuth secret exemptMethods now0 ctx req info handler = handler ctx req) \<and>
   (FullMethod info \<notin> set exemptMethods \<and> Context_md ctx = None \<longrightarrow>
      (\<exists>err. NewJWTInterceptor wire jwtAuth secret exemptMethods now0 ctx req info handler
               = Inl (StatusError Unauthenticated err))) \<and>
   (FullMethod info \<notin> set exemptMethods \<and> Context_md ctx = Some md \<and>
      (md ''authorization'' = None \<or> md ''authorization'' = Some []) \<longrightarrow>
      (\<exists>err. NewJWTInterceptor wire jwtAuth secret exemptMethods now0 ctx req info handler
               = Inl (StatusError Unauthenticated err))) \<and>
   (FullMethod info \<notin> set exemptMethods \<and> Context_md ctx = Some md \<and>
      md ''authorization'' = Some (authHeader # others) \<and>
      (\<nexists>scheme tokenString. authHeader = scheme @ '' '' @ tokenString \<and> ToLower scheme = ''bearer'') \<longrightarrow>
      (\<exists>err. NewJWTInterceptor wire jwtAuth secret exemptMethods now0 ctx req info handler
               = Inl (StatusError Unauthenticated err))) \<and>
   (FullMethod info \<notin> set exemptMethods \<and> Context_md ctx = Some md \<and>
      md ''authorization'' = Some ((scheme @ '' '' @ tokenString) # others) \<and> ToLower scheme = ''bearer'' \<and>
      ValidateTokenWithClaims jwtAuth now0 (wire tokenString) secret = Inl err \<longrightarrow>
      NewJWTInterceptor wire jwtAuth secret exemptMethods now0 ctx req info handler
        = Inl (StatusError Unauthenticated err)) \<and>
   (FullMethod info \<notin> set exemptMethods \<and> Context_md ctx = Some md \<and>
      md ''authorization'' = Some ((scheme @ '' '' @ tokenString) # others) \<and> ToLower scheme = ''bearer'' \<and>
      ValidateTokenWithClaims jwtAuth now0 (wire tokenString) secret = Inr token \<longrightarrow>
      NewJWTInterceptor wire jwtAuth secret exemptMethods now0 ctx req info handler
        = handler (ctx\<lparr>Context_UserClaims := Some (Token_Claims token)\<rparr>) req)"
proof -
  let ?r = "NewJWTInterceptor wire jwtAuth secret exemptMethods now0 ctx req info handler"
  have exempt: "FullMethod info \<in> set exemptMethods \<Longrightarrow> ?r = handler ctx req"
    by (simp add: NewJWTInterceptor_def exemptMap_iff)
  have nomd: "FullMethod info \<notin> set exemptMethods \<Longrightarrow> Context_md ctx = None \<Longrightarrow>
      \<exists>err. ?r = Inl (StatusError Unauthenticated err)"
    by (simp add: NewJWTInterceptor_def exemptMap_iff extractAndValidateJWT_def)
  have nohdr: "FullMethod info \<notin> set exemptMethods \<Longrightarrow> Context_md ctx = Some md \<Longrightarrow>
      md ''authorization'' = None \<or> md ''authorization'' = Some [] \<Longrightarrow>
      \<exists>err. ?r = Inl (StatusError Unauthenticated err)"
    by (auto simp: NewJWTInterceptor_def exemptMap_iff extractAndValidateJWT_def MD_Get_def
        ToLower_Authorization)
  have malformed: "\<exists>err. ?r = Inl (StatusError Unauthenticated err)"
    if ne: "FullMethod info \<notin> set exemptMethods" and md: "Context_md ctx = Some md"
      and h: "md ''authorization'' = Some (authHeader # others)"
      and bad: "\<nexists>scheme tokenString. authHeader = scheme @ '' '' @ tokenString \<and> ToLower scheme = ''bearer''"
  proof -
    from SplitN_2_cases [of authHeader "CHR '' ''"]
    consider "SplitN_2 authHeader CHR '' '' = [authHeader]"
      | scheme rest where "SplitN_2 authHeader CHR '' '' = [scheme, rest]"
          "authHeader = scheme @ CHR '' '' # rest"
      by blast
    then show ?thesis
    proof cases
      case 1
      with ne md h show ?thesis
        by (simp add: NewJWTInterceptor_def exemptMap_iff extractAndValidateJWT_def MD_Get_def
            ToLower_Authorization)
    next
      case 2
      with bad have "ToLower scheme \<noteq> ''bearer''" by auto
      with 2 ne md h show ?thesis
        by (simp add: NewJWTInterceptor_def exemptMap_iff extractAndValidateJWT_def MD_Get_def
            ToLower_Authorization)
    qed
  qed
  have split: "SplitN_2 (scheme @ '' '' @ tokenString) CHR '' '' = [scheme, tokenString]"
    if "ToLower scheme = ''bearer''"
    using SplitN_2_split [OF bearer_no_space [OF that], of tokenString] by simp
  have rejected: "?r = Inl (StatusError Unauthenticated err)"
    if "FullMethod info \<notin> set exemptMethods" "Context_md ctx = Some md"
      "md ''authorization'' = Some ((scheme @ '' '' @ tokenString) # others)" "ToLower scheme = ''bearer''"
      "ValidateTokenWithClaims jwtAuth now0 (wire tokenString) secret = Inl err"
    using that split
    by (simp add: NewJWTInterceptor_def exemptMap_iff extractAndValidateJWT_def MD_Get_def
        ToLower_Authorization)
  have accepted: "?r = handler (ctx\<lparr>Context_UserClaims := Some (Token_Claims token)\<rparr>) req"
    if "FullMethod info \<notin> set exemptMethods" "Context_md ctx = Some md"
      "md ''authorization'' = Some ((scheme @ '' '' @ tokenString) # others)" "ToLower scheme = ''bearer''"
      "ValidateTokenWithClaims jwtAuth now0 (wire tokenString) secret = Inr token"
    using that split
    by (simp add: NewJWTInterceptor_def exemptMap_iff extractAndValidateJWT_def MD_Get_def
        ToLower_Authorization)
  show ?thesis
    using exempt nomd nohdr malformed rejected accepted by blast
qed

lemma not_bearer_Basic:
  "\<nexists>scheme tokenString. ''Basic abc'' = scheme @ '' '' @ tokenString \<and> ToLower scheme = ''bearer''"
proof
  assume "\<exists>scheme tokenString. ''Basic abc'' = scheme @ '' '' @ tokenString \<and> ToLower scheme = ''bearer''"
  then obtain scheme tokenString where eq: "''Basic abc'' = scheme @ '' '' @ tokenString"
    and low: "ToLower scheme = ''bearer''" by blast
  from SplitN_2_split [OF bearer_no_space [OF low], of tokenString] eq
  have "SplitN_2 ''Basic abc'' CHR '' '' = [scheme, tokenString]" by simp
  then have "scheme = ''Basic''" by (simp add: SplitN_2_def)
  with low show False by (simp add: ToLower_def)
qed

theorem gate_cases_witness:
  "NewJWTInterceptor wire0 auth0 ''access-secret'' [''/auth.v1.AuthService/Login''] 1500000000000
      (ctx0 []) ''request'' \<lparr>FullMethod = ''/auth.v1.AuthService/Login''\<rparr> handler0
     = handler0 (ctx0 []) ''request'' \<and>
   (\<exists>err. NewJWTInterceptor wire0 auth0 ''access-secret'' [''/auth.v1.AuthService/Login''] 1500000000000
      \<lparr>Context_md = None, Context_UserClaims = None\<rparr> ''request''
      \<lparr>FullMethod = ''/auth.v1.AuthService/ResetPassword''\<rparr> handler0
     = Inl (StatusError Unauthenticated err)) \<and>
   (\<exists>err. NewJWTInterceptor wire0 auth0 ''access-secret'' [''/auth.v1.AuthService/Login''] 1500000000000
      (ctx0 []) ''request'' \<lparr>FullMethod = ''/auth.v1.AuthService/ResetPassword''\<rparr> handler0
     = Inl (StatusError Unauthenticated err)) \<and>
   (\<exists>err. NewJWTInterceptor wire0 auth0 ''access-secret'' [''/auth.v1.AuthService/Login''] 1500000000000
      (ctx0 [''Basic abc'']) ''request'' \<lparr>FullMethod = ''/auth.v1.AuthService/ResetPassword''\<rparr> handler0
     = Inl (StatusError Unauthenticated err)) \<and>
   NewJWTInterceptor wire0 auth0 ''access-secret'' [''/auth.v1.AuthService/Login''] 1500000000000
      (ctx0 [''BEARER forged'']) ''request'' \<lparr>FullMethod = ''/auth.v1.AuthService/ResetPassword''\<rparr> handler0
     = Inl (StatusError Unauthenticated ErrTokenMalformed) \<and>
   NewJWTInterceptor wire0 auth0 ''access-secret'' [''/auth.v1.AuthService/Login''] 1500000000000
      (ctx0 [''bearer tok-alice'']) ''request'' \<lparr>FullMethod = ''/auth.v1.AuthService/ResetPassword''\<rparr> handler0
     = handler0 (ctx0 [''bearer tok-alice'']\<lparr>Context_UserClaims := Some (claims0 (Some 1900000000000))\<rparr>)
         ''request''"
proof -
  let ?login = "\<lparr>FullMethod = ''/auth.v1.AuthService/Login''\<rparr>"
  let ?reset = "\<lparr>FullMethod = ''/auth.v1.AuthService/ResetPassword''\<rparr>"
  let ?md = "\<lambda>hs. [''authorization'' \<mapsto> hs] :: MD"
  have bad: "ValidateTokenWithClaims auth0 1500000000000 (wire0 ''forged'') ''access-secret''
               = Inl ErrTokenMalformed"
    by (simp add: ValidateTokenWithClaims_def ParseWithClaims_def wire0_def)
  have low: "ToLower ''BEARER'' = ''bearer''" "ToLower ''bearer'' = ''bearer''"
    by (simp_all add: ToLower_def)
  show ?thesis
    using gate_cases [where info = ?login and exemptMethods = "[''/auth.v1.AuthService/Login'']"
        and wire = wire0 and jwtAuth = auth0 and secret = "''access-secret''"
        and ?now0.0 = 1500000000000 and ctx = "ctx0 []" and req = "''request''" and handler = handler0]
      gate_cases [where info = ?reset and exemptMethods = "[''/auth.v1.AuthService/Login'']"
        and wire = wire0 and jwtAuth = auth0 and secret = "''access-secret''"
        and ?now0.0 = 1500000000000 and ctx = "\<lparr>Context_md = None, Context_UserClaims = None\<rparr>"
        and req = "''request''" and handler = handler0]
      gate_cases [where info = ?reset and exemptMethods = "[''/auth.v1.AuthService/Login'']"
        and wire = wire0 and jwtAuth = auth0 and secret = "''access-secret''"
        and ?now0.0 = 1500000000000 and ctx = "ctx0 []" and req = "''request''" and handler = handler0
        and md = "?md []"]
      gate_cases [where info = ?reset and exemptMethods = "[''/auth.v1.AuthService/Login'']"
        and wire = wire0 and jwtAuth = auth0 and secret = "''access-secret''"
        and ?now0.0 = 1500000000000 and ctx = "ctx0 [''Basic abc'']" and req = "''request''"
        and handler = handler0 and md = "?md [''Basic abc'']" and authHeader = "''Basic abc''"
        and others = "[]"]
      gate_cases [where info = ?reset and exemptMethods = "[''/auth.v1.AuthService/Login'']"
        and wire = wire0 and jwtAuth = auth0 and secret = "''access-secret''"
        and ?now0.0 = 1500000000000 and ctx = "ctx0 [''BEARER forged'']" and req = "''request''"
        and handler = handler0 and md = "?md [''BEARER forged'']" and scheme = "''BEARER''"
        and tokenString = "''forged''" and others = "[]" and err = ErrTokenMalformed]
      gate_cases [where info = ?reset and exemptMethods = "[''/auth.v1.AuthService/Login'']"
        and wire = wire0 and jwtAuth = auth0 and secret = "''access-secret''"
        and ?now0.0 = 1500000000000 and ctx = "ctx0 [''bearer tok-alice'']" and req = "''request''"
        and handler = handler0 and md = "?md [''bearer tok-alice'']" and scheme = "''bearer''"
        and tokenString = "''tok-alice''" and others = "[]"
        and token = "\<lparr>Token_Method = HS256, Token_Claims = claims0 (Some 1900000000000), Token_Valid = True\<rparr>"]
      bad low valid0 not_bearer_Basic
    by (simp add: ctx0_def)
qed

section \<open>Session issuance\<close>





lemma find_append_last:
  "\<forall>d\<in>set coll. \<not> flt d \<Longrightarrow> flt x \<Longrightarrow> List.find flt (coll @ [x]) = Some x"
  by (induction coll) auto

lemma list_ex_false: "\<forall>d\<in>set coll. \<not> P d \<Longrightarrow> list_ex P coll = False"
  by (simp add: list_ex_iff)







section \<open>Superseding reset tokens\<close>

lemma unused_after_invalidate:
  "filter (\<lambda>t. Reset_UserID t = uid \<and> \<not> Reset_Used t)
     (UpdateMany (\<lambda>t. Reset_UserID t = u \<and> \<not> Reset_Used t)
        (\<lambda>t. t\<lparr>Reset_Used := True, Reset_UpdatedAt := n\<rparr>) toks)
   = (if uid = u then [] else filter (\<lambda>t. Reset_UserID t = uid \<and> \<not> Reset_Used t) toks)"
  by (induction toks) (auto simp: UpdateMany_def)

lemma invalidated_used:
  assumes "t \<in> set (UpdateMany (\<lambda>t. Reset_UserID t = u \<and> \<not> Reset_Used t)
        (\<lambda>t. t\<lparr>Reset_Used := True, Reset_UpdatedAt := n\<rparr>) toks)"
    and "Reset_UserID t = u"
  shows "Reset_Used t"
proof -
  have "filter (\<lambda>t. Reset_UserID t = u \<and> \<not> Reset_Used t)
     (UpdateMany (\<lambda>t. Reset_UserID t = u \<and> \<not> Reset_Used t)
        (\<lambda>t. t\<lparr>Reset_Used := True, Reset_UpdatedAt := n\<rparr>) toks) = []"
    by (simp add: unused_after_invalidate)
  then show ?thesis using assms unfolding filter_empty_conv by blast
qed

lemma invalidated_JTIs:
  "Reset_JTI ` set (UpdateMany flt (\<lambda>t. t\<lparr>Reset_Used := True, Reset_UpdatedAt := n\<rparr>) toks)
     = Reset_JTI ` set toks"
  by (induction toks) (auto simp: UpdateMany_def)

lemma CreateToken_cases:
  "CreateToken now0 gen token coll = Inl DuplicateKeyError \<or>
   (\<exists>doc. CreateToken now0 gen token coll = Inr (doc, coll @ [doc]) \<and>
      Reset_UserID doc = Reset_UserID token \<and> Reset_JTI doc = Reset_JTI token \<and> \<not> Reset_Used doc \<and>
      (\<forall>t\<in>set coll. Reset_JTI t \<noteq> Reset_JTI token))"
  by (auto simp: CreateToken_def InsertOne_def Let_def list_ex_iff)

lemma RequestPasswordReset_tokens:
  assumes user: "GetUserByEmail (users st) email = Inr user"
  shows "(fst (RequestPasswordReset cfg jwtAuth env st email) \<noteq> None \<and>
          password_reset_tokens (snd (RequestPasswordReset cfg jwtAuth env st email)) =
            UpdateMany (\<lambda>t. Reset_UserID t = User_ID user \<and> \<not> Reset_Used t)
              (\<lambda>t. t\<lparr>Reset_Used := True, Reset_UpdatedAt := now env 0\<rparr>) (password_reset_tokens st)) \<or>
         (\<exists>new. password_reset_tokens (snd (RequestPasswordReset cfg jwtAuth env st email)) =
            UpdateMany (\<lambda>t. Reset_UserID t = User_ID user \<and> \<not> Reset_Used t)
              (\<lambda>t. t\<lparr>Reset_Used := True, Reset_UpdatedAt := now env 0\<rparr>) (password_reset_tokens st) @ [new] \<and>
            Reset_UserID new = User_ID user \<and> \<not> Reset_Used new \<and>
            generateJTI env = Inr (Reset_JTI new) \<and>
            (\<forall>t\<in>set (password_reset_tokens st). Reset_JTI t \<noteq> Reset_JTI new))"
proof -
  let ?toks1 = "UpdateMany (\<lambda>t. Reset_UserID t = User_ID user \<and> \<not> Reset_Used t)
              (\<lambda>t. t\<lparr>Reset_Used := True, Reset_UpdatedAt := now env 0\<rparr>) (password_reset_tokens st)"
  have inval: "InvalidateUserTokens (now env 0) (password_reset_tokens st) (Hex (User_ID user)) = (None, ?toks1)"
    by (simp add: InvalidateUserTokens_def ObjectIDFromHex_Hex)
  show ?thesis
  proof (cases "generatePasswordResetToken cfg jwtAuth env (now env 1) (Hex (User_ID user)) (User_Email user)")
    case (Inl err)
    then show ?thesis using user inval by (simp add: RequestPasswordReset_def)
  next
    case (Inr p)
    obtain tokenStr jti where p: "p = (tokenStr, jti)" by (cases p)
    from Inr p have jti: "generateJTI env = Inr jti"
      by (auto simp: generatePasswordResetToken_def Let_def split: sum.splits)
    let ?token = "\<lparr>Reset_ID = NilObjectID, Reset_UserID = User_ID user, Reset_JTI = jti,
                           Reset_Email = User_Email user, Reset_Used = False,
                           Reset_ExpiresAt = now env 2 + Token_PasswordResetTokenExpiresIn cfg,
                           Reset_CreatedAt = zeroTime, Reset_UpdatedAt = zeroTime\<rparr>"
    from CreateToken_cases [of "now env 3" "newID env 0" ?token ?toks1]
    consider "CreateToken (now env 3) (newID env 0) ?token ?toks1 = Inl DuplicateKeyError"
      | doc where "CreateToken (now env 3) (newID env 0) ?token ?toks1 = Inr (doc, ?toks1 @ [doc])"
          "Reset_UserID doc = User_ID user" "Reset_JTI doc = jti" "\<not> Reset_Used doc"
          "\<forall>t\<in>set ?toks1. Reset_JTI t \<noteq> jti"
      by auto
    then show ?thesis
    proof cases
      case 1
      then show ?thesis using user inval Inr p
        by (simp add: RequestPasswordReset_def Let_def)
    next
      case 2
      from 2(5) have "jti \<notin> Reset_JTI ` set ?toks1" by auto
      then have "jti \<notin> Reset_JTI ` set (password_reset_tokens st)"
        using invalidated_JTIs [of "\<lambda>t. Reset_UserID t = User_ID user \<and> \<not> Reset_Used t" "now env 0"
            "password_reset_tokens st"] by simp
      then have "\<forall>t\<in>set (password_reset_tokens st). Reset_JTI t \<noteq> jti" by auto
      with 2 jti have "\<exists>new. ?toks1 @ [doc] = ?toks1 @ [new] \<and>
            Reset_UserID new = User_ID user \<and> \<not> Reset_Used new \<and>
            generateJTI env = Inr (Reset_JTI new) \<and>
            (\<forall>t\<in>set (password_reset_tokens st). Reset_JTI t \<noteq> Reset_JTI new)"
        by auto
      moreover have "password_reset_tokens (snd (RequestPasswordReset cfg jwtAuth env st email)) = ?toks1 @ [doc]"
        using user inval Inr p 2(1)
        by (simp add: RequestPasswordReset_def Let_def split: prod.splits option.splits)
      ultimately show ?thesis by simp
    qed
  qed
qed

lemma RequestPasswordReset_unknown:
  "GetUserByEmail (users st) email = Inl e \<Longrightarrow> snd (RequestPasswordReset cfg jwtAuth env st email) = st"
  by (simp add: RequestPasswordReset_def)

lemma RequestPasswordReset_keeps_invariant:
  assumes inv: "\<forall>uid. length (unused_tokens st uid) \<le> 1"
  shows "\<forall>uid. length (unused_tokens (snd (RequestPasswordReset cfg jwtAuth env st email)) uid) \<le> 1"
proof (cases "GetUserByEmail (users st) email")
  case (Inl e)
  with inv show ?thesis by (simp add: RequestPasswordReset_unknown)
next
  case (Inr user)
  show ?thesis
  proof
    fix uid
    from RequestPasswordReset_tokens [OF Inr, of cfg jwtAuth env] inv [rule_format, of uid]
    show "length (unused_tokens (snd (RequestPasswordReset cfg jwtAuth env st email)) uid) \<le> 1"
      by (auto simp: unused_tokens_def unused_after_invalidate)
  qed
qed

lemma RequestPasswordReset_seq_keeps_invariant:
  "\<forall>uid. length (unused_tokens st uid) \<le> 1 \<Longrightarrow>
   \<forall>uid. length (unused_tokens (RequestPasswordReset_seq cfg jwtAuth calls st) uid) \<le> 1"
proof (induction calls arbitrary: st)
  case Nil
  then show ?case by simp
next
  case (Cons c calls)
  obtain env email where c: "c = (env, email)" by (cases c)
  from Cons.prems have "\<forall>uid. length (unused_tokens (snd (RequestPasswordReset cfg jwtAuth env st email)) uid) \<le> 1"
    by (rule RequestPasswordReset_keeps_invariant)
  then have "\<forall>uid. length (unused_tokens (RequestPasswordReset_seq cfg jwtAuth calls
                 (snd (RequestPasswordReset cfg jwtAuth env st email))) uid) \<le> 1"
    by (rule Cons.IH)
  then show ?case unfolding c by simp
qed

lemma GetTokenByJTI_last:
  "\<forall>t\<in>set coll. Reset_JTI t \<noteq> Reset_JTI x \<Longrightarrow> GetTokenByJTI (coll @ [x]) (Reset_JTI x) = Inr x"
  by (simp add: GetTokenByJTI_def FindOne_def find_append_last)

text \<open>Facts about the scenario, for evaluating the use cases on it.\<close>

lemma env0_simps:
  "now env0 i = 1000 + int i" "newID env0 j = 100 + of_nat j"
  "randRead env0 = Inr [0x4a, 0x31]" "dialAndSend env0 = None"
  by (simp_all add: env0_def)

lemma st0_simps:
  "users (st0 toks) = [alice]" "identities (st0 toks) = []" "sessions (st0 toks) = []"
  "password_reset_tokens (st0 toks) = toks" "outbox (st0 toks) = []"
  by (simp_all add: st0_def)

lemma alice_simps:
  "User_ID alice = 1" "User_Email alice = ''alice@example.com''"
  "User_PasswordHash alice = ''h:Secret123!''"
  by (simp_all add: alice_def)

lemma reset_J1_simps:
  "Reset_ID (reset_J1 u e) = 7" "Reset_UserID (reset_J1 u e) = 1" "Reset_JTI (reset_J1 u e) = ''J1''"
  "Reset_Used (reset_J1 u e) = u" "Reset_ExpiresAt (reset_J1 u e) = e"
  by (simp_all add: reset_J1_def)

lemma generateJTI_env0: "generateJTI env0 = Inr ''4a31''"
  by (simp add: generateJTI_def env0_simps EncodeToString_def hexdigits_2 hexdigit_def)

lemma GetUserByEmail_alice: "GetUserByEmail [alice] ''alice@example.com'' = Inr alice"
  by (simp add: GetUserByEmail_def FindOne_def alice_simps)

lemma request_alice_ok:
  "fst (RequestPasswordReset cfg0 auth0 env0 (st0 [reset_J1 False 2000]) ''alice@example.com'') = None"
  by (simp add: RequestPasswordReset_def GetUserByEmail_alice InvalidateUserTokens_def
      ObjectIDFromHex_Hex UpdateMany_def generatePasswordResetToken_def generateJTI_env0
      GenerateToken_def SignedString_def isHMAC_def CreateToken_def InsertOne_def ensureID_def
      NilObjectID_def SendHTML_def Send_def Let_def st0_simps reset_J1_simps alice_simps env0_simps)

text \<open>
  Claim C2. \<open>RequestPasswordReset\<close> first marks every unused token of the user as
  used and inserts the new token into the collection so changed. Hence requests
  made one after the other keep the number of unused tokens of every user at one
  at most, in particular from the empty store; and after a request that
  succeeds, the collection is the old one with the user's tokens all used,
  followed by the new token: the new token is the only unused one of the user,
  its JTI is the freshly generated one and differs from every earlier JTI, the
  store returns the new record for it, and every other record of the user is
  used.
\<close>

theorem request_reset_supersedes:
  "((\<forall>uid. length (unused_tokens st uid) \<le> 1) \<longrightarrow>
      (\<forall>uid. length (unused_tokens (RequestPasswordReset_seq cfg jwtAuth calls st) uid) \<le> 1)) \<and>
   (GetUserByEmail (users st) email = Inr user \<and>
    fst (RequestPasswordReset cfg jwtAuth env st email) = None \<longrightarrow>
      (\<exists>new. password_reset_tokens (snd (RequestPasswordReset cfg jwtAuth env st email)) =
               UpdateMany (\<lambda>t. Reset_UserID t = User_ID user \<and> \<not> Reset_Used t)
                 (\<lambda>t. t\<lparr>Reset_Used := True, Reset_UpdatedAt := now env 0\<rparr>) (password_reset_tokens st)
               @ [new] \<and>
             generateJTI env = Inr (Reset_JTI new) \<and>
             (\<forall>t\<in>set (password_reset_tokens st). Reset_JTI t \<noteq> Reset_JTI new) \<and>
             unused_tokens (snd (RequestPasswordReset cfg jwtAuth env st email)) (User_ID user) = [new] \<and>
             GetTokenByJTI (password_reset_tokens (snd (RequestPasswordReset cfg jwtAuth env st email)))
               (Reset_JTI new) = Inr new \<and>
             (\<forall>t\<in>set (password_reset_tokens (snd (RequestPasswordReset cfg jwtAuth env st email))).
                Reset_UserID t = User_ID user \<and> Reset_JTI t \<noteq> Reset_JTI new \<longrightarrow> Reset_Used t)))"
proof (intro conjI impI)
  assume "\<forall>uid. length (unused_tokens st uid) \<le> 1"
  then show "\<forall>uid. length (unused_tokens (RequestPasswordReset_seq cfg jwtAuth calls st) uid) \<le> 1"
    by (rule RequestPasswordReset_seq_keeps_invariant)
next
  let ?st' = "snd (RequestPasswordReset cfg jwtAuth env st email)"
  let ?toks1 = "UpdateMany (\<lambda>t. Reset_UserID t = User_ID user \<and> \<not> Reset_Used t)
                 (\<lambda>t. t\<lparr>Reset_Used := True, Reset_UpdatedAt := now env 0\<rparr>) (password_reset_tokens st)"
  assume a: "GetUserByEmail (users st) email = Inr user \<and>
    fst (RequestPasswordReset cfg jwtAuth env st email) = None"
  with RequestPasswordReset_tokens [of st email user cfg jwtAuth env]
  obtain new where new: "password_reset_tokens ?st' = ?toks1 @ [new]"
      "Reset_UserID new = User_ID user" "\<not> Reset_Used new"
      "generateJTI env = Inr (Reset_JTI new)"
      "\<forall>t\<in>set (password_reset_tokens st). Reset_JTI t \<noteq> Reset_JTI new"
    by auto
  have fresh1: "\<forall>t\<in>set ?toks1. Reset_JTI t \<noteq> Reset_JTI new"
  proof -
    from new(5) have "Reset_JTI new \<notin> Reset_JTI ` set (password_reset_tokens st)" by auto
    then have "Reset_JTI new \<notin> Reset_JTI ` set ?toks1"
      using invalidated_JTIs [of "\<lambda>t. Reset_UserID t = User_ID user \<and> \<not> Reset_Used t" "now env 0"
          "password_reset_tokens st"] by simp
    show ?thesis
    proof
      fix t assume "t \<in> set ?toks1"
      then have "Reset_JTI t \<in> Reset_JTI ` set ?toks1" by (rule imageI)
      with \<open>Reset_JTI new \<notin> Reset_JTI ` set ?toks1\<close> show "Reset_JTI t \<noteq> Reset_JTI new"
        by metis
    qed
  qed
  have unused: "unused_tokens ?st' (User_ID user) = [new]"
    using new(1,2,3) by (simp add: unused_tokens_def unused_after_invalidate)
  have get: "GetTokenByJTI (password_reset_tokens ?st') (Reset_JTI new) = Inr new"
    unfolding new(1) using fresh1 by (rule GetTokenByJTI_last)
  have others: "\<forall>t\<in>set (password_reset_tokens ?st').
                Reset_UserID t = User_ID user \<and> Reset_JTI t \<noteq> Reset_JTI new \<longrightarrow> Reset_Used t"
    unfolding new(1) using invalidated_used [of _ "User_ID user" "now env 0" "password_reset_tokens st"]
    by auto
  show "\<exists>new. password_reset_tokens ?st' = ?toks1 @ [new] \<and>
             generateJTI env = Inr (Reset_JTI new) \<and>
             (\<forall>t\<in>set (password_reset_tokens st). Reset_JTI t \<noteq> Reset_JTI new) \<and>
             unused_tokens ?st' (User_ID user) = [new] \<and>
             GetTokenByJTI (password_reset_tokens ?st') (Reset_JTI new) = Inr new \<and>
             (\<forall>t\<in>set (password_reset_tokens ?st').
                Reset_UserID t = User_ID user \<and> Reset_JTI t \<noteq> Reset_JTI new \<longrightarrow> Reset_Used t)"
    using new(1,4,5) unused get others by blast
qed

theorem request_reset_supersedes_witness:
  "length (unused_tokens
     (RequestPasswordReset_seq cfg0 auth0
        [(env0, ''alice@example.com''), (env0, ''alice@example.com'')] (st0 [reset_J1 False 2000])) 1) \<le> 1 \<and>
   (\<exists>new. password_reset_tokens
            (snd (RequestPasswordReset cfg0 auth0 env0 (st0 [reset_J1 False 2000]) ''alice@example.com''))
           = [(reset_J1 False 2000)\<lparr>Reset_Used := True, Reset_UpdatedAt := 1000\<rparr>, new] \<and>
          Reset_JTI new = ''4a31'' \<and>
          unused_tokens
            (snd (RequestPasswordReset cfg0 auth0 env0 (st0 [reset_J1 False 2000]) ''alice@example.com''))
            1 = [new] \<and>
          GetTokenByJTI (password_reset_tokens
            (snd (RequestPasswordReset cfg0 auth0 env0 (st0 [reset_J1 False 2000]) ''alice@example.com'')))
            ''4a31'' = Inr new)"
proof -
  have inv: "\<forall>uid. length (unused_tokens (st0 [reset_J1 False 2000]) uid) \<le> 1"
    by (simp add: unused_tokens_def st0_simps)
  have uid: "User_ID alice = 1" by (simp add: alice_simps)
  show ?thesis
    using request_reset_supersedes [where st = "st0 [reset_J1 False 2000]" and cfg = cfg0
        and jwtAuth = auth0 and calls = "[(env0, ''alice@example.com''), (env0, ''alice@example.com'')]"
        and email = "''alice@example.com''" and user = alice and env = env0]
      inv GetUserByEmail_alice request_alice_ok
    unfolding uid generateJTI_env0
    by (auto simp: st0_simps UpdateMany_def reset_J1_simps env0_simps)
qed

section \<open>Consuming a reset token\<close>

lemma find_Some_ex: "\<exists>x\<in>set xs. P x \<Longrightarrow> \<exists>y. List.find P xs = Some y \<and> P y"
  by (induction xs) auto

lemma UpdateUser_password:
  assumes "\<exists>u\<in>set coll. User_ID u = oid"
  shows "\<exists>after coll'. UpdateUser now0 coll (Hex oid) \<lparr>Params_Email = None, Params_PasswordHash = Some h\<rparr>
           = (Inr after, coll')"
proof -
  from find_Some_ex [OF assms] obtain y where "List.find (\<lambda>u. User_ID u = oid) coll = Some y"
    by blast
  then show ?thesis
    by (simp add: UpdateUser_def ObjectIDFromHex_Hex FindOneAndUpdate_def Let_def)
qed

lemma GetTokenByJTI_UpdateOne:
  assumes "GetTokenByJTI coll jti = Inr t"
  shows "GetTokenByJTI (UpdateOne (\<lambda>t. Reset_JTI t = jti)
            (\<lambda>t. t\<lparr>Reset_Used := True, Reset_UpdatedAt := n\<rparr>) coll) jti
         = Inr (t\<lparr>Reset_Used := True, Reset_UpdatedAt := n\<rparr>)"
  using assms by (induction coll) (auto simp: GetTokenByJTI_def FindOne_def)

lemma ResetPassword_used:
  assumes "GetTokenByJTI (password_reset_tokens st) jti = Inr t" and "Reset_Used t"
  shows "ResetPassword sec env st jti newPassword = (Some ErrTokenAlreadyUsed, st)"
  using assms by (simp add: ResetPassword_def)

lemma ResetPassword_seq_used:
  assumes "GetTokenByJTI (password_reset_tokens st) jti = Inr t" and "Reset_Used t"
  shows "ResetPassword_seq sec jti calls st = (replicate (length calls) (Some ErrTokenAlreadyUsed), st)"
proof (induction calls)
  case Nil
  show ?case by simp
next
  case (Cons c calls)
  obtain env newPassword where c: "c = (env, newPassword)" by (cases c)
  show ?case unfolding c using Cons ResetPassword_used [OF assms] by simp
qed

lemma ResetPassword_first:
  assumes tok: "GetTokenByJTI (password_reset_tokens st) jti = Inr t"
    and unused: "\<not> Reset_Used t" and live: "now env 0 \<le> Reset_ExpiresAt t"
    and hash: "HashPassword sec newPassword = Inr h"
    and owner: "\<exists>u\<in>set (users st). User_ID u = Reset_UserID t"
  shows "\<exists>st'. ResetPassword sec env st jti newPassword = (None, st') \<and>
           GetTokenByJTI (password_reset_tokens st') jti
             = Inr (t\<lparr>Reset_Used := True, Reset_UpdatedAt := now env 2\<rparr>)"
proof -
  from UpdateUser_password [OF owner, of "now env 1" h]
  obtain after coll' where upd: "UpdateUser (now env 1) (users st) (Hex (Reset_UserID t))
      \<lparr>Params_Email = None, Params_PasswordHash = Some h\<rparr> = (Inr after, coll')"
    by blast
  have "ResetPassword sec env st jti newPassword =
      (None, st\<lparr>users := coll', password_reset_tokens :=
          UpdateOne (\<lambda>t. Reset_JTI t = jti) (\<lambda>t. t\<lparr>Reset_Used := True, Reset_UpdatedAt := now env 2\<rparr>)
            (password_reset_tokens st)\<rparr>)"
    using tok unused live hash upd by (simp add: ResetPassword_def MarkTokenAsUsed_def)
  then show ?thesis using GetTokenByJTI_UpdateOne [OF tok, of "now env 2"] by simp
qed

lemma GetTokenByJTI_J1:
  "GetTokenByJTI [reset_J1 u e] ''J1'' = Inr (reset_J1 u e)"
  by (simp add: GetTokenByJTI_def FindOne_def reset_J1_simps)

text \<open>
  The steps of a single call, run without interruption, are \<open>ResetPassword\<close>.
\<close>

lemma ResetPassword_steps:
  "interleave sec jti [0, 0, 0] ([(env, newPassword, AtGetTokenByJTI)], st) =
     ([(env, newPassword, Returned (fst (ResetPassword sec env st jti newPassword)))],
      snd (ResetPassword sec env st jti newPassword))"
proof (cases "GetTokenByJTI (password_reset_tokens st) jti")
  case (Inl err)
  then show ?thesis by (simp add: ResetPassword_step_def ResetPassword_def)
next
  case tok: (Inr t)
  show ?thesis
  proof (cases "Reset_Used t \<or> now env 0 > Reset_ExpiresAt t")
    case True
    with tok show ?thesis by (auto simp: ResetPassword_step_def ResetPassword_def)
  next
    case live: False
    show ?thesis
    proof (cases "HashPassword sec newPassword")
      case (Inl err)
      with tok live show ?thesis by (simp add: ResetPassword_step_def ResetPassword_def)
    next
      case hash: (Inr h)
      obtain r coll where upd: "UpdateUser (now env 1) (users st) (Hex (Reset_UserID t))
          \<lparr>Params_Email = None, Params_PasswordHash = Some h\<rparr> = (r, coll)"
        by (cases "UpdateUser (now env 1) (users st) (Hex (Reset_UserID t))
          \<lparr>Params_Email = None, Params_PasswordHash = Some h\<rparr>")
      show ?thesis
      proof (cases r)
        case (Inl err)
        with tok live hash upd show ?thesis
          by (simp add: ResetPassword_step_def ResetPassword_def)
      next
        case (Inr u)
        with tok live hash upd show ?thesis
          by (simp add: ResetPassword_step_def ResetPassword_def MarkTokenAsUsed_def)
      qed
    qed
  qed
qed

text \<open>
  Claim C1, as the code has it. \<open>ResetPassword\<close> reads the record, tests \<open>Used\<close>
  and the expiry on what it read, changes the password and then marks the token
  with an update whose filter is the JTI alone; \<open>MarkTokenAsUsed\<close> never reports
  whether it changed a record. Calls with the same JTI made one after the other,
  the first on a record that is unused and not expired, for a password that can
  be hashed and a user that exists, give one success followed by
  \<open>ErrTokenAlreadyUsed\<close> for every later call.
\<close>

theorem reset_password_one_after_the_other:
  assumes tok: "GetTokenByJTI (password_reset_tokens st) jti = Inr t"
    and unused: "\<not> Reset_Used t" and live: "now env 0 \<le> Reset_ExpiresAt t"
    and hash: "HashPassword sec newPassword = Inr h"
    and owner: "\<exists>u\<in>set (users st). User_ID u = Reset_UserID t"
  shows "(\<exists>st'. ResetPassword_seq sec jti ((env, newPassword) # calls) st
                  = (None # replicate (length calls) (Some ErrTokenAlreadyUsed), st')) \<and>
         fst (MarkTokenAsUsed now0 coll jti') = None"
proof -
  from ResetPassword_first [OF tok unused live hash owner]
  obtain st' where first: "ResetPassword sec env st jti newPassword = (None, st')"
    and used: "GetTokenByJTI (password_reset_tokens st') jti
             = Inr (t\<lparr>Reset_Used := True, Reset_UpdatedAt := now env 2\<rparr>)"
    by blast
  have "ResetPassword_seq sec jti calls st' = (replicate (length calls) (Some ErrTokenAlreadyUsed), st')"
    by (rule ResetPassword_seq_used [OF used]) simp
  with first show ?thesis by (simp add: MarkTokenAsUsed_def)
qed

theorem reset_password_one_after_the_other_witness:
  "(\<exists>st'. ResetPassword_seq sec0 ''J1''
            [(env0, ''New1!''), (env0, ''New2!''), (env0, ''New3!'')] (st0 [reset_J1 False 2000])
          = ([None, Some ErrTokenAlreadyUsed, Some ErrTokenAlreadyUsed], st')) \<and>
   fst (MarkTokenAsUsed 3000 [reset_J1 True 2000] ''J1'') = None"
proof -
  have tok: "GetTokenByJTI (password_reset_tokens (st0 [reset_J1 False 2000])) ''J1''
               = Inr (reset_J1 False 2000)"
    by (simp add: st0_simps GetTokenByJTI_J1)
  have unused: "\<not> Reset_Used (reset_J1 False 2000)"
    and live: "now env0 0 \<le> Reset_ExpiresAt (reset_J1 False 2000)"
    by (simp_all add: reset_J1_simps env0_simps)
  have hash: "HashPassword sec0 ''New1!'' = Inr ''h:New1!''"
    by (simp add: sec0_def)
  have owner: "\<exists>u\<in>set (users (st0 [reset_J1 False 2000])). User_ID u = Reset_UserID (reset_J1 False 2000)"
    by (simp add: st0_simps alice_simps reset_J1_simps)
  show ?thesis
    using reset_password_one_after_the_other [OF tok unused live hash owner,
        of "[(env0, ''New2!''), (env0, ''New3!'')]" 3000 "[reset_J1 True 2000]" "''J1''"]
    by (simp add: numeral_2_eq_2)
qed

text \<open>
  Claim C1 as stated fails when calls overlap. Two calls with the same valid JTI
  that both read the record before either marks it both return without error;
  and marking a record that is already used changes it again and reports
  nothing.
\<close>

theorem concurrent_resets_counterexample:
  "map (snd \<circ> snd)
     (fst (interleave sec0 ''J1'' [0, 1, 0, 1, 0, 1]
             ([(env0, ''New1!'', AtGetTokenByJTI), (env0, ''New2!'', AtGetTokenByJTI)],
              st0 [reset_J1 False 2000])))
     = [Returned None, Returned None] \<and>
   MarkTokenAsUsed 3000 [reset_J1 True 2000] ''J1''
     = (None, [(reset_J1 True 2000)\<lparr>Reset_Used := True, Reset_UpdatedAt := 3000\<rparr>])"
proof -
  have find: "List.find (\<lambda>u. User_ID u = 1) [alice] = Some alice"
    by (simp add: alice_simps)
  have find': "List.find (\<lambda>u. User_ID u = 1) [alice\<lparr>User_PasswordHash := h, User_UpdatedAt := n\<rparr>]
                 = Some (alice\<lparr>User_PasswordHash := h, User_UpdatedAt := n\<rparr>)" for h n
    by (simp add: alice_simps)
  show ?thesis
    by (simp add: ResetPassword_step_def GetTokenByJTI_def FindOne_def st0_simps reset_J1_simps
        env0_simps sec0_def UpdateUser_def ObjectIDFromHex_Hex FindOneAndUpdate_def find find'
        alice_simps MarkTokenAsUsed_def Let_def)
qed

end
